theory Spec2Isabelle
  imports Complex_Main
begin

section \<open>JavaScript values used by the dashboard code\<close>

text \<open>
  Strings are lists of 8-bit characters; the payloads the code handles (record fields,
  mapping values, decimal amounts) are ASCII. A JavaScript \<open>bigint\<close> is an \<open>int\<close>.
  An exception thrown by the code, or a rejected promise, is the left summand of a result.
\<close>

datatype js_error =
    SyntaxError
  | TypeError
  | Rejected
  | Error string

subsection \<open>Decimal rendering: \<open>bigint.toString()\<close>\<close>

definition digit_char :: "nat \<Rightarrow> char" where
  "digit_char n = ''0123456789'' ! (n mod 10)"

fun dec_of_nat :: "nat \<Rightarrow> string" where
  "dec_of_nat n = (if n < 10 then [digit_char n] else dec_of_nat (n div 10) @ [digit_char (n mod 10)])"

declare dec_of_nat.simps [simp del]

definition bigint_toString :: "int \<Rightarrow> string" where
  "bigint_toString b = (if b < 0 then CHR ''-'' # dec_of_nat (nat (- b)) else dec_of_nat (nat b))"

subsection \<open>\<open>String.prototype.slice\<close>, \<open>padStart\<close>, \<open>split\<close>, \<open>replace\<close>\<close>

text \<open>
  \<open>s.slice(0, -d)\<close> and \<open>s.slice(-d)\<close> for a non-negative integer \<open>d\<close>. In JavaScript
  \<open>-0\<close> is \<open>0\<close>, so for \<open>d = 0\<close> the first is \<open>s.slice(0, 0)\<close>, the empty string, and the
  second is \<open>s.slice(0)\<close>, the whole string.
\<close>

definition slice_0_neg :: "nat \<Rightarrow> string \<Rightarrow> string" where
  "slice_0_neg d s = (if d = 0 then [] else take (length s - d) s)"

definition slice_neg :: "nat \<Rightarrow> string \<Rightarrow> string" where
  "slice_neg d s = (if d = 0 then s else drop (length s - d) s)"

definition padStart :: "nat \<Rightarrow> char \<Rightarrow> string \<Rightarrow> string" where
  "padStart n c s = replicate (n - length s) c @ s"

fun startsWith :: "string \<Rightarrow> string \<Rightarrow> bool" where
  "startsWith s [] = True"
| "startsWith [] (p # ps) = False"
| "startsWith (c # cs) (p # ps) = (c = p \<and> startsWith cs ps)"

text \<open>\<open>s.split(sep)[0]\<close> for a non-empty separator: the text before its first occurrence.\<close>

fun split_first :: "string \<Rightarrow> string \<Rightarrow> string" where
  "split_first sep [] = []"
| "split_first sep (c # cs) = (if startsWith (c # cs) sep then [] else c # split_first sep cs)"

text \<open>\<open>s.replace(pat, '')\<close> for a non-empty string pattern: its first occurrence is removed.\<close>

fun replace_first :: "string \<Rightarrow> string \<Rightarrow> string" where
  "replace_first pat [] = []"
| "replace_first pat (c # cs) =
     (if startsWith (c # cs) pat then drop (length pat) (c # cs) else c # replace_first pat cs)"

subsection \<open>\<open>BigInt(string)\<close>\<close>

text \<open>
  \<open>BigInt\<close> applied to a string trims white space, reads the empty string as \<open>0n\<close>,
  accepts decimal digits with an optional sign, or unsigned digits after one of the
  prefixes \<open>0x\<close>, \<open>0o\<close>, \<open>0b\<close> (either case), and throws a \<open>SyntaxError\<close> on anything
  else; \<open>None\<close> is the throw.
\<close>

definition is_white :: "char \<Rightarrow> bool" where
  "is_white c = (c \<in> set [CHR 0x09, CHR 0x0A, CHR 0x0B, CHR 0x0C, CHR 0x0D, CHR 0x20])"

definition trim :: "string \<Rightarrow> string" where
  "trim s = rev (dropWhile is_white (rev (dropWhile is_white s)))"

definition is_digit :: "char \<Rightarrow> bool" where
  "is_digit c = (c \<in> set ''0123456789'')"

definition digit_value :: "char \<Rightarrow> nat option" where
  "digit_value c =
     (if c \<in> set ''0123456789'' then Some (of_char c - 48)
      else if c \<in> set ''abcdef'' then Some (of_char c - 87)
      else if c \<in> set ''ABCDEF'' then Some (of_char c - 55)
      else None)"

fun digits_value :: "nat \<Rightarrow> nat \<Rightarrow> string \<Rightarrow> nat option" where
  "digits_value radix acc [] = Some acc"
| "digits_value radix acc (c # cs) =
     (case digit_value c of
        None \<Rightarrow> None
      | Some v \<Rightarrow> if v < radix then digits_value radix (acc * radix + v) cs else None)"

definition number_in :: "nat \<Rightarrow> string \<Rightarrow> nat option" where
  "number_in radix ds = (if ds = [] then None else digits_value radix 0 ds)"

definition js_BigInt :: "string \<Rightarrow> int option" where
  "js_BigInt s =
     (let t = trim s in
      if t = [] then Some 0
      else if startsWith t ''0x'' \<or> startsWith t ''0X'' then map_option int (number_in 16 (drop 2 t))
      else if startsWith t ''0o'' \<or> startsWith t ''0O'' then map_option int (number_in 8 (drop 2 t))
      else if startsWith t ''0b'' \<or> startsWith t ''0B'' then map_option int (number_in 2 (drop 2 t))
      else if hd t = CHR ''+'' then map_option int (number_in 10 (tl t))
      else if hd t = CHR ''-'' then map_option (\<lambda>n. - int n) (number_in 10 (tl t))
      else map_option int (number_in 10 t))"

section \<open>formatUtils.ts\<close>

text \<open>
  \<open>formatBalance(balance: bigint | undefined, decimals: number = 6)\<close>. The argument
  \<open>undefined\<close> is \<open>None\<close>; \<open>!balance\<close> holds for \<open>undefined\<close> and for \<open>0n\<close>. The number of
  decimals is a natural number.
\<close>

definition formatBalance :: "int option \<Rightarrow> nat \<Rightarrow> string" where
  "formatBalance balance decimals =
     (case balance of
        None \<Rightarrow> ''0.0000''
      | Some b \<Rightarrow>
          if b = 0 then ''0.0000''
          else
            let balanceStr = bigint_toString b;
                whole = (let w = slice_0_neg decimals balanceStr in if w = [] then ''0'' else w);
                decimal = padStart decimals (CHR ''0'') (slice_neg decimals balanceStr);
                formattedDecimal = take 4 decimal
            in whole @ ''.'' @ formattedDecimal)"

text \<open>
  The value \<open>b / 10^d\<close> cut to four fractional digits, written from the specification:
  with \<open>q\<close> the balance in units of \<open>10^-4\<close>, the integer part is \<open>q div 10^4\<close> and the
  fraction is \<open>q mod 10^4\<close> on exactly four digits.
\<close>

fun fixed_width :: "nat \<Rightarrow> nat \<Rightarrow> string" where
  "fixed_width 0 m = []"
| "fixed_width (Suc k) m = fixed_width k (m div 10) @ [digit_char (m mod 10)]"

definition display_4dp :: "nat \<Rightarrow> nat \<Rightarrow> string" where
  "display_4dp b d =
     (let q = b div 10 ^ (d - 4)
      in dec_of_nat (q div 10 ^ 4) @ ''.'' @ fixed_width 4 (q mod 10 ^ 4))"

text \<open>The digits a rendered balance shows after its decimal point.\<close>

definition fraction_digits :: "string \<Rightarrow> string" where
  "fraction_digits s = drop 1 (dropWhile (\<lambda>c. c \<noteq> CHR ''.'') s)"

section \<open>Wallet records and balance ledgers\<close>

text \<open>
  A record returned by \<open>requestRecords\<close>: \<open>{id, owner, program_id, spent, recordName, data}\<close>.
  The fields of \<open>data\<close> are strings that may be missing (\<open>undefined\<close> is \<open>None\<close>), and the
  code also guards against a missing \<open>data\<close> (\<open>record.data?.amount\<close>).
\<close>

record record_data =
  d_owner :: "string option"
  d_amount :: "string option"
  d_token_id :: "string option"
  d_timestamp :: "string option"
  d_apy_snapshot :: "string option"
  d_microcredits :: "string option"
  d_id_public :: "string option"

record wallet_record =
  r_id :: string
  r_owner :: string
  r_program_id :: string
  r_spent :: bool
  r_recordName :: string
  r_data :: "record_data option"

text \<open>\<open>record.data?.f\<close>: \<open>undefined\<close> when \<open>data\<close> or the field is missing.\<close>

definition data_field :: "(record_data \<Rightarrow> string option) \<Rightarrow> wallet_record \<Rightarrow> string option" where
  "data_field f r = (case r_data r of None \<Rightarrow> None | Some d \<Rightarrow> f d)"

text \<open>A string in a condition is truthy when it is present and not empty.\<close>

definition truthy :: "string option \<Rightarrow> bool" where
  "truthy v = (case v of None \<Rightarrow> False | Some s \<Rightarrow> s \<noteq> [])"

text \<open>
  \<open>TokenBalances\<close>, an object used as a dictionary from token identifier to
  \<open>bigint\<close>: a map. \<open>prev[k] || BigInt(0)\<close> reads a missing entry (and a zero one) as zero.
\<close>

type_synonym token_balances = "string \<rightharpoonup> int"

definition or_zero :: "token_balances \<Rightarrow> string \<Rightarrow> int" where
  "or_zero bal k = (case bal k of None \<Rightarrow> 0 | Some v \<Rightarrow> v)"

definition REGISTRY_PROGRAM_ID :: string where
  "REGISTRY_PROGRAM_ID = ''token_registry.aleo''"

section \<open>balanceUtils.ts: getPrivateBalances\<close>

text \<open>
  The body of \<open>records.forEach\<close>: one record against the balances so far. \<open>BigInt\<close>
  throws on a malformed amount, which ends the loop and rejects the promise.
\<close>

definition add_record :: "token_balances \<Rightarrow> wallet_record \<Rightarrow> js_error + token_balances" where
  "add_record balances record =
     (if r_program_id record = ''credits.aleo'' \<and> truthy (data_field d_microcredits record) then
        let amountStr = the (data_field d_microcredits record) in
        if r_spent record then Inr balances
        else
          let balances1 = (if balances ''ALEO'' = None then balances(''ALEO'' \<mapsto> 0) else balances) in
          (case js_BigInt (split_first ''u64'' amountStr) of
             None \<Rightarrow> Inl SyntaxError
           | Some creditAmount \<Rightarrow>
               Inr (balances1(''ALEO'' \<mapsto> the (balances1 ''ALEO'') + creditAmount)))
      else if r_program_id record = REGISTRY_PROGRAM_ID then
        (case (data_field d_token_id record, data_field d_amount record) of
           (Some tokenId, Some amountStr) \<Rightarrow>
             if r_spent record then Inr balances
             else
               let cleanTokenId = split_first ''.'' tokenId;
                   balances1 = (if balances cleanTokenId = None
                                then balances(cleanTokenId \<mapsto> 0) else balances);
                   tokenAmountStr = slice_0_neg 4 (split_first ''.'' amountStr)
               in (case js_BigInt (if tokenAmountStr = [] then ''0'' else tokenAmountStr) of
                     None \<Rightarrow> Inl SyntaxError
                   | Some tokenAmount \<Rightarrow>
                       Inr (balances1(cleanTokenId \<mapsto> the (balances1 cleanTokenId) + tokenAmount)))
         | _ \<Rightarrow> Inr balances)
      else Inr balances)"

fun add_records :: "token_balances \<Rightarrow> wallet_record list \<Rightarrow> js_error + token_balances" where
  "add_records balances [] = Inr balances"
| "add_records balances (record # records) =
     (case add_record balances record of
        Inl e \<Rightarrow> Inl e
      | Inr balances' \<Rightarrow> add_records balances' records)"

definition getPrivateBalances :: "wallet_record list \<Rightarrow> js_error + token_balances" where
  "getPrivateBalances records = add_records Map.empty records"

text \<open>
  The specification's reading of the same function: each record that counts has a token and a
  parsed amount, and a token's balance is the sum of the amounts of its unspent records.
  \<open>record_amount_text\<close> is the text handed to \<open>BigInt\<close>.
\<close>

definition record_token :: "wallet_record \<Rightarrow> string option" where
  "record_token r =
     (if r_program_id r = ''credits.aleo'' \<and> truthy (data_field d_microcredits r) then Some ''ALEO''
      else if r_program_id r = REGISTRY_PROGRAM_ID \<and> data_field d_amount r \<noteq> None
      then map_option (split_first ''.'') (data_field d_token_id r)
      else None)"

definition record_amount_text :: "wallet_record \<Rightarrow> string" where
  "record_amount_text r =
     (if r_program_id r = ''credits.aleo'' \<and> truthy (data_field d_microcredits r)
      then split_first ''u64'' (the (data_field d_microcredits r))
      else let t = slice_0_neg 4 (split_first ''.'' (the (data_field d_amount r)))
           in if t = [] then ''0'' else t)"

definition counted :: "wallet_record \<Rightarrow> bool" where
  "counted r = (\<not> r_spent r \<and> record_token r \<noteq> None)"

definition amounts_of :: "string \<Rightarrow> wallet_record list \<Rightarrow> int list" where
  "amounts_of k records =
     map (\<lambda>r. the (js_BigInt (record_amount_text r)))
       (filter (\<lambda>r. counted r \<and> record_token r = Some k) records)"

definition token_sum :: "string \<Rightarrow> wallet_record list \<Rightarrow> int option" where
  "token_sum k records =
     (if amounts_of k records = [] then None else Some (sum_list (amounts_of k records)))"

text \<open>
  An example wallet: an unspent and a spent credits record, two unspent records of one
  registry token, and a spent one whose amount is not a number.
\<close>

definition no_data :: record_data where
  "no_data = \<lparr>d_owner = None, d_amount = None, d_token_id = None, d_timestamp = None,
     d_apy_snapshot = None, d_microcredits = None, d_id_public = None\<rparr>"

definition example_wallet :: "wallet_record list" where
  "example_wallet =
     [\<lparr>r_id = ''c1'', r_owner = ''aleo1'', r_program_id = ''credits.aleo'', r_spent = False,
       r_recordName = ''credits'', r_data = Some (no_data\<lparr>d_microcredits := Some ''1000u64.private''\<rparr>)\<rparr>,
      \<lparr>r_id = ''c2'', r_owner = ''aleo1'', r_program_id = ''credits.aleo'', r_spent = True,
       r_recordName = ''credits'', r_data = Some (no_data\<lparr>d_microcredits := Some ''77u64.private''\<rparr>)\<rparr>,
      \<lparr>r_id = ''t1'', r_owner = ''aleo1'', r_program_id = ''token_registry.aleo'', r_spent = False,
       r_recordName = ''Token'', r_data = Some (no_data\<lparr>d_amount := Some ''500u128.private'',
         d_token_id := Some ''123field.private''\<rparr>)\<rparr>,
      \<lparr>r_id = ''t2'', r_owner = ''aleo1'', r_program_id = ''token_registry.aleo'', r_spent = True,
       r_recordName = ''Token'', r_data = Some (no_data\<lparr>d_amount := Some ''n/a'',
         d_token_id := Some ''123field.private''\<rparr>)\<rparr>,
      \<lparr>r_id = ''t3'', r_owner = ''aleo1'', r_program_id = ''token_registry.aleo'', r_spent = False,
       r_recordName = ''Token'', r_data = Some (no_data\<lparr>d_amount := Some ''20u128.private'',
         d_token_id := Some ''123field.private''\<rparr>)\<rparr>]"

section \<open>The chain as the readers see it\<close>

text \<open>
  One JSON-RPC \<open>getMappingValue\<close> call: \<open>fetch\<close> rejects, or \<open>response.json()\<close>
  rejects, or the body is \<open>null\<close> (reading \<open>data.error\<close> then throws a \<open>TypeError\<close>), or it is
  a value with a truthy or falsy \<open>error\<close> member and a \<open>result\<close> member. The result is
  \<open>null\<close> or missing, a string, or some other JSON value, on which \<open>.match\<close> is not a
  function.
\<close>

datatype json_result = JNull | JString string | JOther

datatype rpc_outcome =
    FetchRejects
  | JsonRejects
  | DataNull
  | Data bool json_result

text \<open>The block explorer's answer to the block-height request.\<close>

datatype http_outcome =
    HttpRejects
  | HttpNotOk string
  | HttpText string

text \<open>
  The environment of a reader or builder at the time it runs: \<open>hashStruct\<close> (\<open>None\<close> when
  it throws), the answer to each mapping request (program, mapping, key), and the answer
  to the block-height request.
\<close>

record chain =
  hashStruct :: "string \<Rightarrow> string option"
  getMappingValue :: "string \<Rightarrow> string \<Rightarrow> string \<Rightarrow> rpc_outcome"
  blockHeightResponse :: http_outcome

subsection \<open>The regular expressions of the readers\<close>

text \<open>
  \<open>s.match(/pre(\d+)suf/)\<close> for literal texts \<open>pre\<close> and \<open>suf\<close> (\<open>suf\<close> starting with a
  non-digit): the captured digits of the leftmost match, \<open>None\<close> for \<open>null\<close>. At a given
  start the greedy \<open>\d+\<close> takes the whole run of digits, and no shorter run can be
  followed by \<open>suf\<close>.
\<close>

definition digits_at :: "string \<Rightarrow> string \<Rightarrow> string \<Rightarrow> string option" where
  "digits_at pre suf s =
     (if startsWith s pre then
        let rest = drop (length pre) s; ds = takeWhile is_digit rest
        in if ds \<noteq> [] \<and> startsWith (drop (length ds) rest) suf then Some ds else None
      else None)"

fun match_digits :: "string \<Rightarrow> string \<Rightarrow> string \<Rightarrow> string option" where
  "match_digits pre suf [] = digits_at pre suf []"
| "match_digits pre suf (c # cs) =
     (case digits_at pre suf (c # cs) of
        Some ds \<Rightarrow> Some ds
      | None \<Rightarrow> match_digits pre suf cs)"

text \<open>\<open>s.match(/pre([^,]+)/)\<close>: the leftmost \<open>pre\<close> followed by a character other than a comma.\<close>

definition until_comma_at :: "string \<Rightarrow> string \<Rightarrow> string option" where
  "until_comma_at pre s =
     (if startsWith s pre then
        let v = takeWhile (\<lambda>c. c \<noteq> CHR '','') (drop (length pre) s)
        in if v \<noteq> [] then Some v else None
      else None)"

fun match_until_comma :: "string \<Rightarrow> string \<Rightarrow> string option" where
  "match_until_comma pre [] = until_comma_at pre []"
| "match_until_comma pre (c # cs) =
     (case until_comma_at pre (c # cs) of
        Some v \<Rightarrow> Some v
      | None \<Rightarrow> match_until_comma pre cs)"

text \<open>\<open>s.match(/active: (true|false)/)\<close>.\<close>

fun match_active :: "string \<Rightarrow> string option" where
  "match_active [] = None"
| "match_active (c # cs) =
     (if startsWith (c # cs) ''active: true'' then Some ''true''
      else if startsWith (c # cs) ''active: false'' then Some ''false''
      else match_active cs)"

text \<open>
  \<open>parseInt\<close> and \<open>Number\<close> on a text of decimal digits give its value (exactly, below
  \<open>2^53\<close>); \<open>Number\<close> of anything else that is not a numeric literal is \<open>NaN\<close>. Only
  decimal digits, with white space around them, are read as a number here; the explorer
  and the mappings answer with such texts.
\<close>

definition parseInt_digits :: "string \<Rightarrow> nat" where
  "parseInt_digits ds = the (digits_value 10 0 ds)"

definition js_Number :: "string \<Rightarrow> nat option" where
  "js_Number s = (let t = trim s in if t = [] then Some 0 else number_in 10 t)"

section \<open>balanceUtils.ts and lendingUtils.ts: the domain readers\<close>

text \<open>
  Each reader is a \<open>try\<close> block whose \<open>catch\<close> logs and returns a default. The \<open>try\<close> block
  is modelled as a result of its own (\<open>Inl\<close> for what it throws), and the reader maps a
  throw to the default, as the \<open>catch\<close> does. \<open>await\<close>ing a reader that is \<open>Inr\<close> never
  rejects.
\<close>

definition await_hash :: "chain \<Rightarrow> string \<Rightarrow> js_error + string" where
  "await_hash env structString = (case hashStruct env structString of None \<Rightarrow> Inl Rejected | Some h \<Rightarrow> Inr h)"

text \<open>\<open>BigInt\<close> of a captured text, with its \<open>SyntaxError\<close>.\<close>

definition bigint_of :: "string \<Rightarrow> js_error + int" where
  "bigint_of s = (case js_BigInt s of None \<Rightarrow> Inl SyntaxError | Some v \<Rightarrow> Inr v)"

definition getPublicBalance_try :: "chain \<Rightarrow> string \<Rightarrow> string \<Rightarrow> js_error + int" where
  "getPublicBalance_try env token_id publicKey =
     (let tokenOwner = ''{account: '' @ publicKey @ '', token_id: '' @ token_id @ ''}'' in
      case await_hash env tokenOwner of
        Inl e \<Rightarrow> Inl e
      | Inr hashedKey \<Rightarrow>
          (case getMappingValue env REGISTRY_PROGRAM_ID ''authorized_balances'' hashedKey of
             FetchRejects \<Rightarrow> Inl Rejected
           | JsonRejects \<Rightarrow> Inl Rejected
           | DataNull \<Rightarrow> Inl TypeError
           | Data err res \<Rightarrow>
               if err \<or> res = JNull then Inr 0
               else (case res of
                       JString s \<Rightarrow>
                         (case match_digits ''balance: '' ''u128'' s of
                            Some ds \<Rightarrow> bigint_of ds
                          | None \<Rightarrow> Inr 0)
                     | _ \<Rightarrow> Inl TypeError)))"

definition getPublicBalance :: "chain \<Rightarrow> string \<Rightarrow> string \<Rightarrow> js_error + int" where
  "getPublicBalance env token_id publicKey =
     (case getPublicBalance_try env token_id publicKey of Inl e \<Rightarrow> Inr 0 | Inr v \<Rightarrow> Inr v)"

definition getAleoBalance_try :: "chain \<Rightarrow> string \<Rightarrow> js_error + int" where
  "getAleoBalance_try env publicKey =
     (case getMappingValue env ''credits.aleo'' ''account'' publicKey of
        FetchRejects \<Rightarrow> Inl Rejected
      | JsonRejects \<Rightarrow> Inl Rejected
      | DataNull \<Rightarrow> Inl TypeError
      | Data err res \<Rightarrow>
          if \<not> err \<and> res \<noteq> JNull then
            (case res of
               JString s \<Rightarrow>
                 (case match_digits [] ''u64'' s of
                    Some ds \<Rightarrow> bigint_of ds
                  | None \<Rightarrow> Inr 0)
             | _ \<Rightarrow> Inl TypeError)
          else Inr 0)"

definition getAleoBalance :: "chain \<Rightarrow> string \<Rightarrow> js_error + int" where
  "getAleoBalance env publicKey =
     (case getAleoBalance_try env publicKey of Inl e \<Rightarrow> Inr 0 | Inr v \<Rightarrow> Inr v)"

subsection \<open>constants/lending.ts\<close>

definition LENDING_PROGRAM_ID :: string where
  "LENDING_PROGRAM_ID = ''zhppy2pajo.aleo''"

definition LENDING_PROGRAM_ID_USDQ :: string where
  "LENDING_PROGRAM_ID_USDQ = ''nafrqqtcxg.aleo''"

definition vUSDG :: string where
  "vUSDG = ''5983142094692128773510225623816045070304444621008302359049788306211838130558field''"

definition vUSDQ :: string where
  "vUSDQ = ''8260953594890310383870507716927422646335575786500909254294703665587287172223field''"

definition getProgramIdForToken :: "string \<Rightarrow> string" where
  "getProgramIdForToken token_id = (if token_id = vUSDQ then LENDING_PROGRAM_ID_USDQ else LENDING_PROGRAM_ID)"


subsection \<open>lendingUtils.ts: readers\<close>





record LendingTotals =
  supplied :: int
  borrowed :: int

text \<open>
  One of the two reads of \<open>getLendingTotals\<close>: \<open>data.result?.match(/(\d+)u128/)\<close>, then
  \<open>BigInt\<close> of the capture or zero. The \<open>error\<close> member is not looked at.
\<close>

definition read_total :: "rpc_outcome \<Rightarrow> js_error + int" where
  "read_total outcome =
     (case outcome of
        FetchRejects \<Rightarrow> Inl Rejected
      | JsonRejects \<Rightarrow> Inl Rejected
      | DataNull \<Rightarrow> Inl TypeError
      | Data err res \<Rightarrow>
          (case res of
             JNull \<Rightarrow> Inr 0
           | JString s \<Rightarrow>
               (case match_digits [] ''u128'' s of
                  Some ds \<Rightarrow> bigint_of ds
                | None \<Rightarrow> Inr 0)
           | JOther \<Rightarrow> Inl TypeError))"

definition getLendingTotals_try :: "chain \<Rightarrow> string \<Rightarrow> js_error + LendingTotals" where
  "getLendingTotals_try env programId =
     (case read_total (getMappingValue env programId ''supplied_total'' ''true'') of
        Inl e \<Rightarrow> Inl e
      | Inr s \<Rightarrow>
          (case read_total (getMappingValue env programId ''borrowed_total'' ''true'') of
             Inl e \<Rightarrow> Inl e
           | Inr b \<Rightarrow> Inr \<lparr>supplied = s, borrowed = b\<rparr>))"

definition getLendingTotals :: "chain \<Rightarrow> string \<Rightarrow> js_error + LendingTotals" where
  "getLendingTotals env programId =
     (case getLendingTotals_try env programId of
        Inl e \<Rightarrow> Inr \<lparr>supplied = 0, borrowed = 0\<rparr>
      | Inr t \<Rightarrow> Inr t)"



record LoanPublic =
  lp_id_public :: nat
  lp_collateral_amount :: int
  lp_collateral_token_id :: string
  lp_borrowed_amount :: int
  lp_timestamp :: nat
  lp_apr_snapshot :: int
  lp_active :: bool

text \<open>The parse of the \<open>loans_public\<close> entry: a missing field throws, inside the \<open>try\<close>.\<close>

definition parse_loan :: "string \<Rightarrow> js_error + LoanPublic" where
  "parse_loan loanDetails =
     (case (match_digits ''id_public: '' ''u32'' loanDetails,
            match_digits ''collateral_amount: '' ''u128'' loanDetails,
            match_until_comma ''collateral_token_id: '' loanDetails,
            match_digits ''borrowed_amount: '' ''u128'' loanDetails,
            match_digits ''timestamp: '' ''u32'' loanDetails,
            match_digits ''apr_snapshot: '' ''u128'' loanDetails,
            match_active loanDetails) of
        (Some idPublic, Some collateralAmount, Some collateralTokenId, Some borrowedAmount,
         Some timestamp, Some aprSnapshot, Some active) \<Rightarrow>
          (case (bigint_of collateralAmount, bigint_of borrowedAmount, bigint_of aprSnapshot) of
             (Inr ca, Inr ba, Inr apr) \<Rightarrow>
               Inr \<lparr>lp_id_public = parseInt_digits idPublic, lp_collateral_amount = ca,
                    lp_collateral_token_id = collateralTokenId, lp_borrowed_amount = ba,
                    lp_timestamp = parseInt_digits timestamp, lp_apr_snapshot = apr,
                    lp_active = (active = ''true'')\<rparr>
           | _ \<Rightarrow> Inl SyntaxError)
      | _ \<Rightarrow> Inl (Error ''Failed to parse loan public details''))"

definition getPublicLoanDetails_try :: "chain \<Rightarrow> string \<Rightarrow> string \<Rightarrow> js_error + LoanPublic option" where
  "getPublicLoanDetails_try env loanId programId =
     (case match_digits [] ''u32'' loanId of
        None \<Rightarrow> Inr None
      | Some numericId \<Rightarrow>
          (case getMappingValue env programId ''loans_public'' (numericId @ ''u32'') of
             FetchRejects \<Rightarrow> Inl Rejected
           | JsonRejects \<Rightarrow> Inl Rejected
           | DataNull \<Rightarrow> Inl TypeError
           | Data err res \<Rightarrow>
               if err \<or> res = JNull \<or> res = JString [] then Inr None
               else (case res of
                       JString s \<Rightarrow> map_sum id Some (parse_loan s)
                     | _ \<Rightarrow> Inl TypeError)))"

definition getPublicLoanDetails :: "chain \<Rightarrow> string \<Rightarrow> string \<Rightarrow> js_error + LoanPublic option" where
  "getPublicLoanDetails env loanId programId =
     (case getPublicLoanDetails_try env loanId programId of Inl e \<Rightarrow> Inr None | Inr v \<Rightarrow> Inr v)"

text \<open>
  \<open>getBlockHeight\<close> is the one read that rethrows: its \<open>catch\<close> logs and throws the error
  again.
\<close>

definition getBlockHeight :: "chain \<Rightarrow> js_error + nat" where
  "getBlockHeight env =
     (case blockHeightResponse env of
        HttpRejects \<Rightarrow> Inl Rejected
      | HttpNotOk statusText \<Rightarrow> Inl (Error (''HTTP error getting block height: '' @ statusText))
      | HttpText height \<Rightarrow>
          if height = [] then Inl (Error ''Empty block height response from Aleo Public API'')
          else (case js_Number height of
                  None \<Rightarrow> Inl (Error ''Invalid block height format from Aleo Public API'')
                | Some blockHeight \<Rightarrow> Inr blockHeight))"

subsection \<open>The readers' contract, from the specification\<close>





section \<open>lendingUtils.ts: the transaction builders\<close>

text \<open>
  The outbound transaction: \<open>{address, chainId, transitions: [{program, functionName,
  inputs}], fee, feePrivate}\<close>, where an input is a string or a record.
\<close>

datatype tx_input = Text string | Rec wallet_record



text \<open>Template literals: \<open>`${amount}u128`\<close> for a \<open>bigint\<close>, \<open>`${blockHeight}u32`\<close> for a number.\<close>

definition u128 :: "int \<Rightarrow> tx_input" where
  "u128 v = Text (bigint_toString v @ ''u128'')"

definition u32 :: "nat \<Rightarrow> tx_input" where
  "u32 n = Text (dec_of_nat n @ ''u32'')"


text \<open>The lending proof handed to \<open>prepareRedeemTransaction\<close>.\<close>

record LendingProof =
  proof_id :: string
  proof_owner :: string
  proof_amount :: string
  proof_timestamp :: string
  proof_apy_snapshot :: string



text \<open>An environment in which the explorer answers and every mapping request fails.\<close>

definition rpc_down :: chain where
  "rpc_down = \<lparr>hashStruct = (\<lambda>s. Some s), getMappingValue = (\<lambda>p m k. FetchRejects),
     blockHeightResponse = HttpText ''100''\<rparr>"




definition a_lending_proof :: LendingProof where
  "a_lending_proof = \<lparr>proof_id = ''r1'', proof_owner = ''aleo1'', proof_amount = ''500000u128'',
     proof_timestamp = ''7u32'', proof_apy_snapshot = ''5u128''\<rparr>"


section \<open>The wallet and the dashboard state\<close>

text \<open>
  \<open>requestRecords(programId)\<close>: the records of a program, or a rejected promise. (A
  promise that never settles is outside the model: the poll awaiting it does nothing.)
\<close>

type_synonym wallet = "string \<Rightarrow> js_error + wallet_record list"

text \<open>
  \<open>Promise.all([requestRecords(LENDING_PROGRAM_ID), requestRecords(LENDING_PROGRAM_ID_USDQ)])\<close>
  and the concatenation of the two lists; it rejects when either request does.
\<close>

definition lending_records :: "wallet \<Rightarrow> js_error + wallet_record list" where
  "lending_records requestRecords =
     (case requestRecords LENDING_PROGRAM_ID of
        Inl e \<Rightarrow> Inl e
      | Inr recordsUSDG \<Rightarrow>
          (case requestRecords LENDING_PROGRAM_ID_USDQ of
             Inl e \<Rightarrow> Inl e
           | Inr recordsUSDQ \<Rightarrow> Inr (recordsUSDG @ recordsUSDQ)))"

text \<open>
  \<open>parseInt(s)\<close>: leading white space, an optional sign, then decimal digits (or
  hexadecimal ones after \<open>0x\<close>) up to the first other character; \<open>None\<close> is \<open>NaN\<close>.
\<close>

definition is_hex_digit :: "char \<Rightarrow> bool" where
  "is_hex_digit c = (digit_value c \<noteq> None)"

definition parseInt :: "string \<Rightarrow> int option" where
  "parseInt s =
     (let t = dropWhile is_white s;
          negative = (t \<noteq> [] \<and> hd t = CHR ''-'');
          u = (if t \<noteq> [] \<and> (hd t = CHR ''-'' \<or> hd t = CHR ''+'') then tl t else t);
          magnitude =
            (if startsWith u ''0x'' \<or> startsWith u ''0X''
             then number_in 16 (takeWhile is_hex_digit (drop 2 u))
             else number_in 10 (takeWhile is_digit u))
      in map_option (\<lambda>n. if negative then - int n else int n) magnitude)"

text \<open>
  A pending lend \<open>{amount, timestamp, transactionId}\<close>. The code removes a pending lend
  with \<open>lend !== pendingLend\<close>, which compares object identities; \<open>pl_ref\<close> is that
  identity, different for every object \<open>handleLendPending\<close> creates.
\<close>

record PendingLend =
  pl_ref :: nat
  pl_amount :: int
  pl_timestamp :: int
  pl_transactionId :: string

record LendPosition =
  lend_id :: string
  lend_amount :: int
  lend_timestamp :: "int option"
  lend_apy_snapshot :: string
  lend_apy :: "nat option"
  lend_programId :: string

text \<open>The same for borrows: \<open>PendingBorrow\<close> and \<open>BorrowPosition\<close>.\<close>

record PendingBorrow =
  pb_ref :: nat
  pb_tokenId :: string
  pb_amount :: int
  pb_timestamp :: int
  pb_collateralAmount :: int
  pb_collateralTokenId :: string
  pb_transactionId :: string

record BorrowPosition =
  borrow_id :: string
  borrow_borrowed_amount :: int
  borrow_collateral_amount :: int
  borrow_collateral_token_id :: string
  borrow_timestamp :: nat
  borrow_apr_snapshot :: int
  borrow_apr :: int

text \<open>
  \<open>Array.prototype.sort((a, b) => b.timestamp - a.timestamp)\<close>: a stable sort, latest
  first. A \<open>NaN\<close> difference counts as zero. (With \<open>NaN\<close> timestamps the comparator is not
  consistent and the standard leaves the order open; the elements are the same in any
  case.)
\<close>

definition later :: "int option \<Rightarrow> int option \<Rightarrow> bool" where
  "later a b = (case (a, b) of (Some x, Some y) \<Rightarrow> y < x | _ \<Rightarrow> False)"

fun insert_by_time :: "('a \<Rightarrow> int option) \<Rightarrow> 'a \<Rightarrow> 'a list \<Rightarrow> 'a list" where
  "insert_by_time time x [] = [x]"
| "insert_by_time time x (y # ys) =
     (if later (time y) (time x) then y # insert_by_time time x ys else x # y # ys)"

definition sort_latest_first :: "('a \<Rightarrow> int option) \<Rightarrow> 'a list \<Rightarrow> 'a list" where
  "sort_latest_first time xs = foldr (insert_by_time time) xs []"

text \<open>
  The React state of the dashboard sections: the current values of \<open>lends\<close>,
  \<open>pendingLends\<close>, \<open>activeBorrows\<close>, \<open>pendingBorrows\<close>, \<open>privateBalances\<close> and
  \<open>publicBalances\<close>. A callback sees the values captured when it was created, which
  are arguments of the functions below under the source's names.
\<close>

record dashboard =
  cur_lends :: "LendPosition list"
  cur_pendingLends :: "PendingLend list"
  cur_activeBorrows :: "BorrowPosition list"
  cur_pendingBorrows :: "PendingBorrow list"
  cur_privateBalances :: token_balances
  cur_publicBalances :: token_balances

section \<open>YourLends: polling for a pending lend\<close>

text \<open>What one run of \<open>poll\<close> comes to.\<close>

datatype lend_outcome =
    Unmounted
  | TimedOut
  | Confirmed LendPosition
  | Retry nat

text \<open>
  The position the code builds from a record; \<open>BigInt\<close> may throw on the amount, which
  is read before the comparison with the pending amount.
\<close>

definition record_amount :: "wallet_record \<Rightarrow> js_error + int" where
  "record_amount record =
     (if truthy (data_field d_amount record)
      then bigint_of (replace_first ''u128.private'' (the (data_field d_amount record)))
      else Inr 0)"

definition new_lend_position :: "wallet_record \<Rightarrow> int \<Rightarrow> LendPosition" where
  "new_lend_position record amount =
     (let timestamp = (if truthy (data_field d_timestamp record)
                       then parseInt (replace_first ''u32.private'' (the (data_field d_timestamp record)))
                       else Some 0);
          apy_snapshot = (case data_field d_apy_snapshot record of
                            None \<Rightarrow> ''0''
                          | Some s \<Rightarrow> let t = replace_first ''u128.private'' s in if t = [] then ''0'' else t)
      in \<lparr>lend_id = r_id record, lend_amount = amount, lend_timestamp = timestamp,
          lend_apy_snapshot = apy_snapshot, lend_apy = js_Number apy_snapshot,
          lend_programId = (if r_recordName record = ''avUSDQ'' then LENDING_PROGRAM_ID_USDQ
                            else LENDING_PROGRAM_ID)\<rparr>)"

text \<open>
  The loop \<open>for (const record of avUSDGRecords)\<close>, with the captured \<open>lends\<close>: the first
  record that has an id not among the lends and the pending amount, or none; a throw ends
  the loop.
\<close>

fun find_lend_record :: "LendPosition list \<Rightarrow> PendingLend \<Rightarrow> wallet_record list \<Rightarrow> js_error + LendPosition option" where
  "find_lend_record lends pendingLend [] = Inr None"
| "find_lend_record lends pendingLend (record # records) =
     (if r_id record = [] then find_lend_record lends pendingLend records
      else if list_ex (\<lambda>lend. lend_id lend = r_id record) lends
      then find_lend_record lends pendingLend records
      else (case record_amount record of
              Inl e \<Rightarrow> Inl e
            | Inr amount \<Rightarrow>
                if amount = pl_amount pendingLend then Inr (Some (new_lend_position record amount))
                else find_lend_record lends pendingLend records))"

definition is_receipt :: "wallet_record \<Rightarrow> bool" where
  "is_receipt record = (\<not> r_spent record \<and> (r_recordName record = ''avUSDG'' \<or> r_recordName record = ''avUSDQ''))"

text \<open>
  \<open>poll\<close> for one pending lend. \<open>lends\<close> is the list the effect captured when it started
  the poll; \<open>now\<close> is \<open>Date.now()\<close> at the timeout check. Whatever is thrown inside the
  \<open>try\<close> is logged, and the poll is scheduled again after 5000 ms.
\<close>

definition poll_lend :: "wallet \<Rightarrow> LendPosition list \<Rightarrow> PendingLend \<Rightarrow> bool \<Rightarrow> int \<Rightarrow> int \<Rightarrow> lend_outcome" where
  "poll_lend requestRecords lends pendingLend isMounted startTime now =
     (if \<not> isMounted then Unmounted
      else if now - startTime > 180000 then TimedOut
      else (case lending_records requestRecords of
              Inl e \<Rightarrow> Retry 5000
            | Inr records \<Rightarrow>
                (case find_lend_record lends pendingLend (filter is_receipt records) of
                   Inl e \<Rightarrow> Retry 5000
                 | Inr (Some newLendPosition) \<Rightarrow> Confirmed newLendPosition
                 | Inr None \<Rightarrow> Retry 5000)))"

text \<open>
  The state updates of a poll. \<open>setLends\<close> is given a function of the current list;
  \<open>setPendingLends\<close> is given a list computed from the \<open>pendingLends\<close> the effect captured.
\<close>

definition apply_lend_outcome :: "PendingLend list \<Rightarrow> PendingLend \<Rightarrow> lend_outcome \<Rightarrow> dashboard \<Rightarrow> dashboard" where
  "apply_lend_outcome pendingLends pendingLend outcome st =
     (case outcome of
        Unmounted \<Rightarrow> st
      | TimedOut \<Rightarrow> st\<lparr>cur_pendingLends := filter (\<lambda>lend. lend \<noteq> pendingLend) pendingLends\<rparr>
      | Confirmed newLendPosition \<Rightarrow>
          st\<lparr>cur_lends := sort_latest_first lend_timestamp (cur_lends st @ [newLendPosition]),
             cur_pendingLends := filter (\<lambda>lend. lend \<noteq> pendingLend) pendingLends\<rparr>
      | Retry ms \<Rightarrow> st)"

text \<open>
  One round of the effect: it starts a poll for every pending lend it captured, all with
  the same captured \<open>lends\<close> and \<open>pendingLends\<close>, and each poll updates the state when its
  records arrive. \<open>order\<close> is the order in which the polls get to run after their
  \<open>await\<close>; no poll looks at \<open>isMounted\<close> again after it.
\<close>

fun run_lend_polls :: "wallet \<Rightarrow> LendPosition list \<Rightarrow> PendingLend list \<Rightarrow> int \<Rightarrow> int \<Rightarrow> PendingLend list \<Rightarrow> dashboard \<Rightarrow> dashboard" where
  "run_lend_polls requestRecords lends pendingLends startTime now [] st = st"
| "run_lend_polls requestRecords lends pendingLends startTime now (pendingLend # order) st =
     run_lend_polls requestRecords lends pendingLends startTime now order
       (apply_lend_outcome pendingLends pendingLend
          (poll_lend requestRecords lends pendingLend True startTime now) st)"

text \<open>
  The confirmation predicate in the specification's words: a record is new when it has an id that
  is not the id of an active lend, and it matches when its amount is the pending amount.
\<close>

definition new_to :: "LendPosition list \<Rightarrow> wallet_record \<Rightarrow> bool" where
  "new_to lends record = (r_id record \<noteq> [] \<and> r_id record \<notin> lend_id ` set lends)"

definition matches_lend :: "PendingLend \<Rightarrow> wallet_record \<Rightarrow> bool" where
  "matches_lend pendingLend record = (record_amount record = Inr (pl_amount pendingLend))"

text \<open>The amount of a record can be read: \<open>BigInt\<close> does not throw on it.\<close>

definition readable :: "wallet_record \<Rightarrow> bool" where
  "readable record = (\<exists>a. record_amount record = Inr a)"

text \<open>
  The loop gets to a record of the list when every new record before it could be read and
  did not match.
\<close>

definition reaches :: "LendPosition list \<Rightarrow> PendingLend \<Rightarrow> wallet_record list \<Rightarrow> wallet_record \<Rightarrow> bool" where
  "reaches lends pendingLend records record =
     (\<exists>before after. records = before @ record # after
        \<and> (\<forall>q \<in> set before. new_to lends q \<longrightarrow> readable q \<and> \<not> matches_lend pendingLend q))"

section \<open>YourBorrows: polling for a pending borrow\<close>

datatype borrow_outcome =
    BorrowUnmounted
  | BorrowTimedOut
  | BorrowConfirmed BorrowPosition
  | BorrowRetry nat

text \<open>
  The loop over the unspent \<open>LoanPrivate\<close> records, with the captured \<open>activeBorrows\<close>.
  \<open>record.data.id_public\<close> throws a \<open>TypeError\<close> when the record has no \<open>data\<close>. The public
  details are read with the default program of \<open>getPublicLoanDetails\<close>. \<open>apr\<close> is
  \<open>Number(apr_snapshot)\<close>, the same integer (exactly, below \<open>2^53\<close>).
\<close>

fun find_loan_record :: "chain \<Rightarrow> BorrowPosition list \<Rightarrow> PendingBorrow \<Rightarrow> wallet_record list \<Rightarrow> js_error + BorrowPosition option" where
  "find_loan_record env activeBorrows pendingBorrow [] = Inr None"
| "find_loan_record env activeBorrows pendingBorrow (record # records) =
     (case r_data record of
        None \<Rightarrow> Inl TypeError
      | Some d \<Rightarrow>
          if \<not> truthy (d_id_public d) then find_loan_record env activeBorrows pendingBorrow records
          else
            let loanId = the (d_id_public d) in
            if list_ex (\<lambda>borrow. borrow_id borrow = loanId) activeBorrows
            then find_loan_record env activeBorrows pendingBorrow records
            else (case getPublicLoanDetails env loanId LENDING_PROGRAM_ID of
                    Inl e \<Rightarrow> Inl e
                  | Inr None \<Rightarrow> find_loan_record env activeBorrows pendingBorrow records
                  | Inr (Some loanDetails) \<Rightarrow>
                      if lp_borrowed_amount loanDetails = pb_amount pendingBorrow
                         \<and> lp_collateral_amount loanDetails = pb_collateralAmount pendingBorrow
                         \<and> lp_collateral_token_id loanDetails = pb_collateralTokenId pendingBorrow
                      then Inr (Some \<lparr>borrow_id = loanId,
                             borrow_borrowed_amount = lp_borrowed_amount loanDetails,
                             borrow_collateral_amount = lp_collateral_amount loanDetails,
                             borrow_collateral_token_id = lp_collateral_token_id loanDetails,
                             borrow_timestamp = lp_timestamp loanDetails,
                             borrow_apr_snapshot = lp_apr_snapshot loanDetails,
                             borrow_apr = lp_apr_snapshot loanDetails\<rparr>)
                      else find_loan_record env activeBorrows pendingBorrow records))"

definition is_loan :: "wallet_record \<Rightarrow> bool" where
  "is_loan record = (\<not> r_spent record \<and> r_recordName record = ''LoanPrivate'')"

definition poll_borrow :: "chain \<Rightarrow> wallet \<Rightarrow> BorrowPosition list \<Rightarrow> PendingBorrow \<Rightarrow> bool \<Rightarrow> int \<Rightarrow> int \<Rightarrow> borrow_outcome" where
  "poll_borrow env requestRecords activeBorrows pendingBorrow isMounted startTime now =
     (if \<not> isMounted then BorrowUnmounted
      else if now - startTime > 180000 then BorrowTimedOut
      else (case lending_records requestRecords of
              Inl e \<Rightarrow> BorrowRetry 5000
            | Inr records \<Rightarrow>
                (case find_loan_record env activeBorrows pendingBorrow (filter is_loan records) of
                   Inl e \<Rightarrow> BorrowRetry 5000
                 | Inr (Some newBorrowPosition) \<Rightarrow> BorrowConfirmed newBorrowPosition
                 | Inr None \<Rightarrow> BorrowRetry 5000)))"

definition apply_borrow_outcome :: "PendingBorrow list \<Rightarrow> PendingBorrow \<Rightarrow> borrow_outcome \<Rightarrow> dashboard \<Rightarrow> dashboard" where
  "apply_borrow_outcome pendingBorrows pendingBorrow outcome st =
     (case outcome of
        BorrowUnmounted \<Rightarrow> st
      | BorrowTimedOut \<Rightarrow>
          st\<lparr>cur_pendingBorrows := filter (\<lambda>borrow. borrow \<noteq> pendingBorrow) pendingBorrows\<rparr>
      | BorrowConfirmed newBorrowPosition \<Rightarrow>
          st\<lparr>cur_activeBorrows :=
               sort_latest_first (\<lambda>b. Some (int (borrow_timestamp b))) (cur_activeBorrows st @ [newBorrowPosition]),
             cur_pendingBorrows := filter (\<lambda>borrow. borrow \<noteq> pendingBorrow) pendingBorrows\<rparr>
      | BorrowRetry ms \<Rightarrow> st)"

section \<open>Optimistic updates of the balance ledgers\<close>

text \<open>
  The success callbacks. Each \<open>setPrivateBalances(prev => ...)\<close> is a function of the
  current ledger; \<open>prev[k] || BigInt(0)\<close> is \<open>or_zero\<close>. The token of a repayment is
  always vUSDG.
\<close>

definition WALEO_TOKEN_id :: string where
  "WALEO_TOKEN_id = ''3443843282313283355522573239085696902919850365217539366784739393210722344986field''"

definition credit :: "string \<Rightarrow> int \<Rightarrow> token_balances \<Rightarrow> token_balances" where
  "credit tokenId amount prev = prev(tokenId \<mapsto> or_zero prev tokenId + amount)"

definition debit :: "string \<Rightarrow> int \<Rightarrow> token_balances \<Rightarrow> token_balances" where
  "debit tokenId amount prev = prev(tokenId \<mapsto> or_zero prev tokenId - amount)"

definition handleTransferSuccess :: "string \<Rightarrow> int \<Rightarrow> dashboard \<Rightarrow> dashboard" where
  "handleTransferSuccess tokenId amount st =
     st\<lparr>cur_publicBalances := debit tokenId amount (cur_publicBalances st),
        cur_privateBalances := credit tokenId amount (cur_privateBalances st)\<rparr>"

text \<open>\<open>handleLendSuccess\<close>, with \<open>handleLendPending\<close>; \<open>ref\<close> is the identity of the new object.\<close>

definition handleLendSuccess :: "nat \<Rightarrow> string \<Rightarrow> int \<Rightarrow> int \<Rightarrow> string \<Rightarrow> dashboard \<Rightarrow> dashboard" where
  "handleLendSuccess ref tokenId amount nowSeconds transactionId st =
     st\<lparr>cur_privateBalances := debit tokenId amount (cur_privateBalances st),
        cur_pendingLends := cur_pendingLends st @
          [\<lparr>pl_ref = ref, pl_amount = amount, pl_timestamp = nowSeconds, pl_transactionId = transactionId\<rparr>]\<rparr>"

definition handleRedeemSuccess :: "string \<Rightarrow> int \<Rightarrow> dashboard \<Rightarrow> dashboard" where
  "handleRedeemSuccess tokenId amount st =
     st\<lparr>cur_privateBalances := credit tokenId amount (cur_privateBalances st)\<rparr>"

definition handleBorrowSuccess :: "nat \<Rightarrow> string \<Rightarrow> int \<Rightarrow> string \<Rightarrow> string \<Rightarrow> int \<Rightarrow> int \<Rightarrow> dashboard \<Rightarrow> dashboard" where
  "handleBorrowSuccess ref tokenId amount transactionId collateralTokenId collateralAmount nowSeconds st =
     st\<lparr>cur_privateBalances :=
          debit collateralTokenId collateralAmount (credit tokenId amount (cur_privateBalances st)),
        cur_pendingBorrows := cur_pendingBorrows st @
          [\<lparr>pb_ref = ref, pb_tokenId = tokenId, pb_amount = amount, pb_timestamp = nowSeconds,
            pb_collateralAmount = collateralAmount, pb_collateralTokenId = collateralTokenId,
            pb_transactionId = transactionId\<rparr>]\<rparr>"

definition handleRepaySuccess :: "string \<Rightarrow> int \<Rightarrow> string \<Rightarrow> int \<Rightarrow> dashboard \<Rightarrow> dashboard" where
  "handleRepaySuccess tokenId amount collateralTokenId collateralAmount st =
     st\<lparr>cur_privateBalances :=
          credit collateralTokenId collateralAmount (debit tokenId amount (cur_privateBalances st))\<rparr>"

definition handleWrapSuccess :: "int \<Rightarrow> bool \<Rightarrow> dashboard \<Rightarrow> dashboard" where
  "handleWrapSuccess amount isWrap st =
     (let prev = cur_privateBalances st in
      if isWrap
      then st\<lparr>cur_privateBalances :=
             prev(''ALEO'' \<mapsto> or_zero prev ''ALEO'' - amount,
                  WALEO_TOKEN_id \<mapsto> or_zero prev WALEO_TOKEN_id + amount)\<rparr>
      else st\<lparr>cur_privateBalances :=
             prev(WALEO_TOKEN_id \<mapsto> or_zero prev WALEO_TOKEN_id - amount,
                  ''ALEO'' \<mapsto> or_zero prev ''ALEO'' + amount)\<rparr>)"

text \<open>
  The repayment as \<open>handleRepay\<close> submits it: it needs an unspent vUSDG record of the
  wallet holding at least the borrowed amount, and on that alone the ledger is debited.
  \<open>BigInt\<close> may throw on a record's amount, which ends the search.
\<close>

fun find_repayment_record :: "int \<Rightarrow> wallet_record list \<Rightarrow> js_error + wallet_record option" where
  "find_repayment_record borrowed_amount [] = Inr None"
| "find_repayment_record borrowed_amount (record # records) =
     (if r_spent record \<or> r_data record = None then find_repayment_record borrowed_amount records
      else if \<not> truthy (data_field d_token_id record) then find_repayment_record borrowed_amount records
      else
        let tokenId = replace_first ''.private'' (the (data_field d_token_id record)) in
        if \<not> truthy (data_field d_amount record) then find_repayment_record borrowed_amount records
        else (case bigint_of (split_first ''u128'' (the (data_field d_amount record))) of
                Inl e \<Rightarrow> Inl e
              | Inr amount \<Rightarrow>
                  if tokenId = vUSDG \<and> amount \<ge> borrowed_amount then Inr (Some record)
                  else find_repayment_record borrowed_amount records))"

section \<open>AssetsToLend: pollTokenBalance\<close>

datatype poll_next = Finished | Again nat nat

text \<open>The records filter of the private part of the poll.\<close>

definition relevant_to :: "string \<Rightarrow> wallet_record \<Rightarrow> bool" where
  "relevant_to tokenId record =
     (if r_program_id record = ''credits.aleo'' then tokenId = ''ALEO''
      else map_option (split_first ''.'') (data_field d_token_id record) = Some tokenId)"

text \<open>
  The \<open>try\<close> block up to the decision to go on: the state after the updates made so far,
  and either what was thrown or \<open>shouldContinuePolling\<close>. \<open>publicBalances\<close> and
  \<open>privateBalances\<close> are the ledgers the callback captured; the updates apply to the
  current ones. The private part sets \<open>shouldContinuePolling\<close> whatever the public part
  found.
\<close>

definition poll_public :: "chain \<Rightarrow> string \<Rightarrow> token_balances \<Rightarrow> string \<Rightarrow> dashboard \<Rightarrow> dashboard \<times> (js_error + bool)" where
  "poll_public env publicKey publicBalances tokenId st =
     (if publicBalances tokenId \<noteq> None then
        (case (if tokenId = ''ALEO'' then getAleoBalance env publicKey
               else getPublicBalance env tokenId publicKey) of
           Inl e \<Rightarrow> (st, Inl e)
         | Inr newPublicBalance \<Rightarrow>
             if Some newPublicBalance \<noteq> publicBalances tokenId
             then (st\<lparr>cur_publicBalances := (cur_publicBalances st)(tokenId \<mapsto> newPublicBalance)\<rparr>, Inr False)
             else (st, Inr True))
      else (st, Inr False))"

definition poll_private :: "wallet option \<Rightarrow> token_balances \<Rightarrow> string \<Rightarrow> bool \<Rightarrow> dashboard \<Rightarrow> dashboard \<times> (js_error + bool)" where
  "poll_private requestRecords privateBalances tokenId shouldContinuePolling st =
     (case requestRecords of
        None \<Rightarrow> (st, Inr shouldContinuePolling)
      | Some request \<Rightarrow>
          if privateBalances tokenId = None then (st, Inr shouldContinuePolling)
          else
            (case (if tokenId = ''ALEO'' then request ''credits.aleo'' else Inr []) of
               Inl e \<Rightarrow> (st, Inl e)
             | Inr creditsRecords \<Rightarrow>
                 (case (if tokenId \<noteq> ''ALEO'' then request ''token_registry.aleo'' else Inr []) of
                    Inl e \<Rightarrow> (st, Inl e)
                  | Inr tokenRecords \<Rightarrow>
                      (case getPrivateBalances (filter (relevant_to tokenId) (creditsRecords @ tokenRecords)) of
                         Inl e \<Rightarrow> (st, Inl e)
                       | Inr privateBalancesData \<Rightarrow>
                           let newPrivateBalance = or_zero privateBalancesData tokenId in
                           if Some newPrivateBalance \<noteq> privateBalances tokenId
                           then (st\<lparr>cur_privateBalances :=
                                     (cur_privateBalances st)(tokenId \<mapsto> newPrivateBalance)\<rparr>, Inr False)
                           else (st, Inr True)))))"

definition pollTokenBalance_try ::
  "chain \<Rightarrow> wallet option \<Rightarrow> string \<Rightarrow> token_balances \<Rightarrow> token_balances \<Rightarrow> string
   \<Rightarrow> dashboard \<Rightarrow> dashboard \<times> (js_error + bool)" where
  "pollTokenBalance_try env requestRecords publicKey publicBalances privateBalances tokenId st =
     (case poll_public env publicKey publicBalances tokenId st of
        (st1, Inl e) \<Rightarrow> (st1, Inl e)
      | (st1, Inr continue1) \<Rightarrow> poll_private requestRecords privateBalances tokenId continue1 st1)"

text \<open>
  \<open>pollTokenBalance(tokenId, startTime, attempt)\<close> at time \<open>now\<close>: the state it leaves and
  what it schedules, \<open>Again ms n\<close> for attempt \<open>n\<close> after \<open>ms\<close> milliseconds. The \<open>catch\<close> has
  its own intervals.
\<close>

definition pollTokenBalance ::
  "chain \<Rightarrow> wallet option \<Rightarrow> string \<Rightarrow> token_balances \<Rightarrow> token_balances \<Rightarrow> string \<Rightarrow> int \<Rightarrow> nat \<Rightarrow> int
   \<Rightarrow> dashboard \<Rightarrow> dashboard \<times> poll_next" where
  "pollTokenBalance env requestRecords publicKey publicBalances privateBalances tokenId startTime attempt now st =
     (if publicKey = [] then (st, Finished)
      else if now - startTime > 180000 then (st, Finished)
      else
        (case pollTokenBalance_try env requestRecords publicKey publicBalances privateBalances tokenId st of
           (st', Inl e) \<Rightarrow>
             let retryInterval = (if attempt \<le> 3 then 3000 else 5000)
             in (st', Again retryInterval (attempt + 1))
         | (st', Inr shouldContinuePolling) \<Rightarrow>
             if shouldContinuePolling
             then let interval = (if attempt \<le> 3 then 2000 else if attempt \<le> 6 then 3000 else 5000)
                  in (st', Again interval (attempt + 1))
             else (st', Finished)))"


text \<open>Example states and wallets.\<close>

definition empty_dashboard :: dashboard where
  "empty_dashboard = \<lparr>cur_lends = [], cur_pendingLends = [], cur_activeBorrows = [],
     cur_pendingBorrows = [], cur_privateBalances = Map.empty, cur_publicBalances = Map.empty\<rparr>"


section \<open>AssetsToBorrow: the optimistic borrowed total\<close>

text \<open>
  The component's state \<open>lendingTotals\<close> and \<open>updateTrigger\<close> and its two refs. The
  initial \<open>lendingTotals\<close> is \<open>{supplied: 0n, borrowed: 0n}\<close>.
\<close>

record borrow_panel =
  cur_lendingTotals :: LendingTotals
  optimisticAvailableRef :: "int option"
  lastBorrowAmountRef :: "int option"
  updateTrigger :: nat

definition initial_lendingTotals :: LendingTotals where
  "initial_lendingTotals = \<lparr>supplied = 0, borrowed = 0\<rparr>"

definition initial_panel :: borrow_panel where
  "initial_panel = \<lparr>cur_lendingTotals = initial_lendingTotals, optimisticAvailableRef = None,
     lastBorrowAmountRef = None, updateTrigger = 0\<rparr>"

text \<open>
  The body of \<open>loadLendingTotals\<close> after \<open>totals = await getLendingTotals()\<close>, for the
  \<open>lendingTotals\<close> its closure holds. \<open>if (lastBorrowAmountRef.current)\<close> is false for
  \<open>null\<close> and for \<open>0n\<close>. The new totals are stored whatever the check finds.
\<close>

definition loadLendingTotals_with :: "LendingTotals \<Rightarrow> LendingTotals \<Rightarrow> borrow_panel \<Rightarrow> borrow_panel" where
  "loadLendingTotals_with lendingTotals totals st =
     (let st1 =
        (case lastBorrowAmountRef st of
           None \<Rightarrow> st
         | Some lastBorrowAmount \<Rightarrow>
             if lastBorrowAmount = 0 then st
             else
               let expectedBorrowed = borrowed lendingTotals + lastBorrowAmount in
               if borrowed totals \<ge> expectedBorrowed
               then st\<lparr>optimisticAvailableRef := None, lastBorrowAmountRef := None,
                       updateTrigger := updateTrigger st + 1\<rparr>
               else st)
      in st1\<lparr>cur_lendingTotals := totals\<rparr>)"

text \<open>
  \<open>loadLendingTotals\<close> is made by \<open>useCallback(..., [])\<close>: the function of the first render
  is kept for the life of the component, and the \<open>lendingTotals\<close> its closure holds is the
  initial state. It runs at mount and every 10 seconds.
\<close>

definition loadLendingTotals :: "chain \<Rightarrow> borrow_panel \<Rightarrow> borrow_panel" where
  "loadLendingTotals env st =
     (case getLendingTotals env LENDING_PROGRAM_ID of
        Inl e \<Rightarrow> st
      | Inr totals \<Rightarrow> loadLendingTotals_with initial_lendingTotals totals st)"

text \<open>
  \<open>handleBorrowSuccess\<close> up to the start of its poll; \<open>lendingTotals\<close> is the state of the
  render that made the handler, that is, the totals before the borrow was submitted.
\<close>

definition panel_handleBorrowSuccess :: "LendingTotals \<Rightarrow> int \<Rightarrow> borrow_panel \<Rightarrow> borrow_panel" where
  "panel_handleBorrowSuccess lendingTotals amount st =
     (let currentAvailable = supplied lendingTotals - borrowed lendingTotals;
          newOptimisticAvailable = currentAvailable - amount
      in st\<lparr>optimisticAvailableRef := Some newOptimisticAvailable,
            updateTrigger := updateTrigger st + 1,
            lastBorrowAmountRef := Some amount,
            cur_lendingTotals := (cur_lendingTotals st)\<lparr>borrowed := borrowed (cur_lendingTotals st) + amount\<rparr>\<rparr>)"

text \<open>The poll that \<open>handleBorrowSuccess\<close> starts, with the same captured \<open>lendingTotals\<close>.\<close>

definition panel_poll :: "chain \<Rightarrow> LendingTotals \<Rightarrow> int \<Rightarrow> int \<Rightarrow> int \<Rightarrow> borrow_panel \<Rightarrow> borrow_panel \<times> nat option" where
  "panel_poll env lendingTotals amount startTime now st =
     (if now - startTime > 180000 then (st\<lparr>lastBorrowAmountRef := None\<rparr>, None)
      else (case getLendingTotals env LENDING_PROGRAM_ID of
              Inl e \<Rightarrow> (st, Some 5000)
            | Inr totals \<Rightarrow>
                let expectedBorrowed = borrowed lendingTotals + amount in
                if borrowed totals \<ge> expectedBorrowed
                then (st\<lparr>cur_lendingTotals := totals, optimisticAvailableRef := None,
                         lastBorrowAmountRef := None, updateTrigger := updateTrigger st + 1\<rparr>, None)
                else (st, Some 5000)))"

text \<open>\<open>getAvailableAmount\<close> for vUSDG: what the section shows as available to borrow.\<close>

definition getAvailableAmount :: "borrow_panel \<Rightarrow> int" where
  "getAvailableAmount st =
     (case optimisticAvailableRef st of
        Some v \<Rightarrow> v
      | None \<Rightarrow> supplied (cur_lendingTotals st) - borrowed (cur_lendingTotals st))"

text \<open>A chain with 10000000 supplied and 5000000 borrowed, before and after a borrow of 1000000.\<close>

definition totals_chain :: "int \<Rightarrow> int \<Rightarrow> chain" where
  "totals_chain s b = \<lparr>hashStruct = (\<lambda>x. Some x),
     getMappingValue = (\<lambda>p m k.
        if m = ''supplied_total'' then Data False (JString (bigint_toString s @ ''u128''))
        else if m = ''borrowed_total'' then Data False (JString (bigint_toString b @ ''u128''))
        else Data False JNull),
     blockHeightResponse = HttpText ''100''\<rparr>"

definition panel_before :: borrow_panel where
  "panel_before = initial_panel\<lparr>cur_lendingTotals := \<lparr>supplied = 10000000, borrowed = 5000000\<rparr>\<rparr>"

section \<open>Example wallets and states\<close>

text \<open>A lend receipt of 500000 with id \<open>r1\<close>, as the lending program issues it.\<close>

definition receipt :: "string \<Rightarrow> string \<Rightarrow> wallet_record" where
  "receipt rid amountText =
     \<lparr>r_id = rid, r_owner = ''aleo1'', r_program_id = LENDING_PROGRAM_ID, r_spent = False,
      r_recordName = ''avUSDG'',
      r_data = Some (no_data\<lparr>d_amount := Some amountText, d_timestamp := Some ''7u32.private'',
        d_apy_snapshot := Some ''5u128.private''\<rparr>)\<rparr>"

text \<open>A wallet whose first lending program holds the given records.\<close>

definition wallet_with :: "wallet_record list \<Rightarrow> wallet" where
  "wallet_with records programId = (if programId = LENDING_PROGRAM_ID then Inr records else Inr [])"

text \<open>Two pending lends of the same amount, submitted one after the other.\<close>

definition pending1 :: PendingLend where
  "pending1 = \<lparr>pl_ref = 1, pl_amount = 500000, pl_timestamp = 100, pl_transactionId = ''tx1''\<rparr>"

definition pending2 :: PendingLend where
  "pending2 = \<lparr>pl_ref = 2, pl_amount = 500000, pl_timestamp = 101, pl_transactionId = ''tx2''\<rparr>"

definition position_r1 :: LendPosition where
  "position_r1 = \<lparr>lend_id = ''r1'', lend_amount = 500000, lend_timestamp = Some 7,
     lend_apy_snapshot = ''5'', lend_apy = Some 5, lend_programId = LENDING_PROGRAM_ID\<rparr>"

text \<open>
  A wallet with one unspent vUSDG token record of the given amount, and no lending
  records: the state of the chain as long as a submitted lend is not mined.
\<close>

definition token_wallet :: "string \<Rightarrow> wallet" where
  "token_wallet amountText programId =
     (if programId = ''token_registry.aleo''
      then Inr [\<lparr>r_id = ''t1'', r_owner = ''aleo1'', r_program_id = ''token_registry.aleo'',
                 r_spent = False, r_recordName = ''Token'',
                 r_data = Some (no_data\<lparr>d_amount := Some amountText,
                   d_token_id := Some (vUSDG @ ''.private'')\<rparr>)\<rparr>]
      else Inr [])"

text \<open>The dashboard showing a private vUSDG balance.\<close>

definition dashboard_with :: "int \<Rightarrow> dashboard" where
  "dashboard_with v = empty_dashboard\<lparr>cur_privateBalances := [vUSDG \<mapsto> v]\<rparr>"

text \<open>The dashboard right after a lend of 500000 out of 1000000 was submitted.\<close>

definition lent_dashboard :: dashboard where
  "lent_dashboard = handleLendSuccess 1 vUSDG 500000 100 ''tx1'' (dashboard_with 1000000)"

section \<open>Decimal renderings and their slices\<close>

lemma length_dec_of_nat_pos: "0 < length (dec_of_nat n)"
  by (induction n rule: dec_of_nat.induct) (subst dec_of_nat.simps, simp)

lemma dec_of_nat_small: "n < 10 \<Longrightarrow> dec_of_nat n = [digit_char n]"
  by (subst dec_of_nat.simps) simp

lemma dec_of_nat_big: "10 \<le> n \<Longrightarrow> dec_of_nat n = dec_of_nat (n div 10) @ [digit_char (n mod 10)]"
  by (subst dec_of_nat.simps) simp

lemma digit_char_not_point: "digit_char n \<noteq> CHR ''.''"
proof -
  have "n mod 10 < length ''0123456789''" by simp
  then have "''0123456789'' ! (n mod 10) \<in> set ''0123456789''" by (rule nth_mem)
  moreover have "CHR ''.'' \<notin> set ''0123456789''" by simp
  ultimately show ?thesis unfolding digit_char_def by metis
qed

lemma dec_of_nat_no_point: "CHR ''.'' \<notin> set (dec_of_nat n)"
proof (induction n rule: dec_of_nat.induct)
  case (1 n)
  show ?case
  proof (cases "n < 10")
    case True
    then show ?thesis
      using digit_char_not_point [of n] by (simp add: dec_of_nat_small)
  next
    case False
    then show ?thesis
      using 1 digit_char_not_point [of "n mod 10"] by (simp add: dec_of_nat_big)
  qed
qed

lemma length_fixed_width [simp]: "length (fixed_width k m) = k"
  by (induction k arbitrary: m) simp_all

lemma fixed_width_zero: "fixed_width k 0 = replicate k (CHR ''0'')"
  by (induction k) (simp_all add: digit_char_def replicate_append_same)

lemma small_below_power: "n < 10 \<Longrightarrow> n < (10::nat) ^ Suc d"
  by (metis One_nat_def less_le_trans one_le_numeral power_increasing power_one_right Suc_le_mono le0)

lemma length_dec_le_iff: "length (dec_of_nat n) \<le> d \<longleftrightarrow> (0 < d \<and> n < 10 ^ d)"
proof (induction d arbitrary: n)
  case 0
  then show ?case using length_dec_of_nat_pos [of n] by simp
next
  case (Suc d)
  show ?case
  proof (cases "n < 10")
    case True
    with small_below_power [of n d] show ?thesis by (simp add: dec_of_nat_small)
  next
    case False
    then have big: "10 \<le> n" by simp
    have "length (dec_of_nat n) \<le> Suc d \<longleftrightarrow> length (dec_of_nat (n div 10)) \<le> d"
      by (simp add: dec_of_nat_big [OF big])
    also have "\<dots> \<longleftrightarrow> (0 < d \<and> n div 10 < 10 ^ d)" by (rule Suc.IH)
    also have "\<dots> \<longleftrightarrow> n < 10 ^ Suc d"
    proof -
      have "n div 10 < 10 ^ d \<longleftrightarrow> n < 10 ^ Suc d"
        by (simp add: div_less_iff_less_mult mult.commute)
      moreover have "n < 10 ^ Suc d \<Longrightarrow> 0 < d" using big by (cases d) auto
      ultimately show ?thesis by auto
    qed
    finally show ?thesis by simp
  qed
qed

text \<open>Left-padding a short rendering gives the fixed-width rendering.\<close>

lemma pad_dec_of_nat:
  "0 < d \<Longrightarrow> n < 10 ^ d \<Longrightarrow>
   replicate (d - length (dec_of_nat n)) (CHR ''0'') @ dec_of_nat n = fixed_width d n"
proof (induction d arbitrary: n)
  case 0
  then show ?case by simp
next
  case (Suc d)
  show ?case
  proof (cases "n < 10")
    case True
    then have "n div 10 = 0" "n mod 10 = n" by simp_all
    with True show ?thesis
      by (simp add: dec_of_nat_small fixed_width_zero)
  next
    case False
    then have big: "10 \<le> n" by simp
    from Suc.prems have lt: "n div 10 < 10 ^ d"
      by (simp add: div_less_iff_less_mult mult.commute)
    from big Suc.prems have pos: "0 < d" by (cases d) auto
    have le: "length (dec_of_nat (n div 10)) \<le> d"
      using lt pos by (simp add: length_dec_le_iff)
    have "replicate (Suc d - length (dec_of_nat n)) (CHR ''0'') @ dec_of_nat n
        = (replicate (d - length (dec_of_nat (n div 10))) (CHR ''0'') @ dec_of_nat (n div 10))
          @ [digit_char (n mod 10)]"
      by (simp add: dec_of_nat_big [OF big])
    also have "\<dots> = fixed_width d (n div 10) @ [digit_char (n mod 10)]"
      by (simp only: Suc.IH [OF pos lt])
    finally show ?thesis by simp
  qed
qed

text \<open>The last \<open>d\<close> characters of a long rendering are the low \<open>d\<close> digits.\<close>

lemma drop_dec_of_nat:
  "d \<le> length (dec_of_nat n) \<Longrightarrow>
   drop (length (dec_of_nat n) - d) (dec_of_nat n) = fixed_width d (n mod 10 ^ d)"
proof (induction d arbitrary: n)
  case 0
  then show ?case by simp
next
  case (Suc d)
  show ?case
  proof (cases "n < 10")
    case True
    with Suc.prems have "d = 0" by (simp add: dec_of_nat_small)
    with True show ?thesis by (simp add: dec_of_nat_small)
  next
    case False
    then have big: "10 \<le> n" by simp
    from Suc.prems have le: "d \<le> length (dec_of_nat (n div 10))"
      by (simp add: dec_of_nat_big [OF big])
    have m1: "n mod (10 * 10 ^ d) div 10 = n div 10 mod 10 ^ d"
      by (simp add: mod_mult2_eq)
    have m2: "n mod (10 * 10 ^ d) mod 10 = n mod 10"
      by (simp add: mod_mod_cancel)
    have "drop (length (dec_of_nat n) - Suc d) (dec_of_nat n)
        = drop (length (dec_of_nat (n div 10)) - d) (dec_of_nat (n div 10)) @ [digit_char (n mod 10)]"
      using le by (simp add: dec_of_nat_big [OF big])
    also have "\<dots> = fixed_width d (n div 10 mod 10 ^ d) @ [digit_char (n mod 10)]"
      by (simp only: Suc.IH [OF le])
    finally show ?thesis by (simp add: m1 m2)
  qed
qed

text \<open>Cutting the last \<open>d\<close> characters leaves the rendering of the quotient.\<close>

lemma take_dec_of_nat:
  "0 < d \<Longrightarrow>
   take (length (dec_of_nat n) - d) (dec_of_nat n)
     = (if n < 10 ^ d then [] else dec_of_nat (n div 10 ^ d))"
proof (induction d arbitrary: n)
  case 0
  then show ?case by simp
next
  case (Suc d)
  show ?case
  proof (cases "n < 10")
    case True
    with small_below_power [of n d] show ?thesis by (simp add: dec_of_nat_small)
  next
    case False
    then have big: "10 \<le> n" by simp
    have lt: "n div 10 < 10 ^ d \<longleftrightarrow> n < 10 ^ Suc d"
      by (simp add: div_less_iff_less_mult mult.commute)
    show ?thesis
    proof (cases "d = 0")
      case True
      with big show ?thesis by (simp add: dec_of_nat_big [OF big])
    next
      case False
      then have pos: "0 < d" by simp
      have "take (length (dec_of_nat n) - Suc d) (dec_of_nat n)
          = take (length (dec_of_nat (n div 10)) - d) (dec_of_nat (n div 10))"
        using pos by (simp add: dec_of_nat_big [OF big])
      also have "\<dots> = (if n div 10 < 10 ^ d then [] else dec_of_nat (n div 10 div 10 ^ d))"
        by (rule Suc.IH [OF pos])
      finally show ?thesis by (simp add: lt div_mult2_eq)
    qed
  qed
qed

lemma take_fixed_width: "take k (fixed_width (k + j) m) = fixed_width k (m div 10 ^ j)"
proof (induction j arbitrary: m)
  case 0
  then show ?case by simp
next
  case (Suc j)
  have "take k (fixed_width (k + Suc j) m) = take k (fixed_width (k + j) (m div 10))"
    by simp
  also have "\<dots> = fixed_width k (m div 10 div 10 ^ j)" by (rule Suc.IH)
  finally show ?case by (simp add: div_mult2_eq)
qed

section \<open>formatBalance\<close>

lemma decimal_part:
  assumes "0 < d"
  shows "padStart d (CHR ''0'') (slice_neg d (dec_of_nat n)) = fixed_width d (n mod 10 ^ d)"
proof (cases "d \<le> length (dec_of_nat n)")
  case True
  then show ?thesis
    using assms by (simp add: padStart_def slice_neg_def drop_dec_of_nat)
next
  case False
  then have le: "length (dec_of_nat n) \<le> d" by simp
  then have lt: "n < 10 ^ d" by (simp add: length_dec_le_iff)
  have "padStart d (CHR ''0'') (slice_neg d (dec_of_nat n))
      = replicate (d - length (dec_of_nat n)) (CHR ''0'') @ dec_of_nat n"
    using assms le by (simp add: padStart_def slice_neg_def)
  also have "\<dots> = fixed_width d n" by (rule pad_dec_of_nat [OF assms lt])
  finally show ?thesis using lt by simp
qed

lemma whole_part:
  assumes "0 < d"
  shows "(let w = slice_0_neg d (dec_of_nat n) in if w = [] then ''0'' else w) = dec_of_nat (n div 10 ^ d)"
proof (cases "n < 10 ^ d")
  case True
  then show ?thesis
    using assms by (simp add: slice_0_neg_def take_dec_of_nat dec_of_nat_small digit_char_def)
next
  case False
  have "dec_of_nat (n div 10 ^ d) \<noteq> []"
    using length_dec_of_nat_pos [of "n div 10 ^ d"] by auto
  with False show ?thesis
    using assms by (simp add: slice_0_neg_def take_dec_of_nat)
qed

text \<open>What the code prints for a positive balance, whatever the number of decimals.\<close>

lemma formatBalance_pos:
  assumes "0 < b" and "0 < d"
  shows "formatBalance (Some b) d
       = dec_of_nat (nat b div 10 ^ d) @ ''.'' @ take 4 (fixed_width d (nat b mod 10 ^ d))"
proof -
  from assms(1) have str: "bigint_toString b = dec_of_nat (nat b)"
    by (simp add: bigint_toString_def)
  show ?thesis
    using assms(1)
    by (simp add: formatBalance_def str Let_def decimal_part [OF assms(2)]
        whole_part [OF assms(2), unfolded Let_def])
qed

lemma four_digit_split:
  assumes "4 \<le> d"
  shows "(n::nat) mod 10 ^ d div 10 ^ (d - 4) = n div 10 ^ (d - 4) mod 10 ^ 4"
    and "n div 10 ^ d = n div 10 ^ (d - 4) div 10 ^ 4"
proof -
  define p :: nat where "p = 10 ^ (d - 4)"
  define r :: nat where "r = 10 ^ 4"
  from assms have "d = (d - 4) + 4" by simp
  then have "(10::nat) ^ d = 10 ^ (d - 4) * 10 ^ 4"
    by (metis power_add)
  then have d: "(10::nat) ^ d = p * r" by (simp only: p_def r_def)
  have "n mod (p * r) div p = n div p mod r"
    by (simp add: mod_mult2_eq p_def)
  then show "n mod 10 ^ d div 10 ^ (d - 4) = n div 10 ^ (d - 4) mod 10 ^ 4"
    by (simp only: d) (simp only: p_def r_def)
  have "n div (p * r) = n div p div r"
    by (simp add: div_mult2_eq)
  then show "n div 10 ^ d = n div 10 ^ (d - 4) div 10 ^ 4"
    by (simp only: d) (simp only: p_def r_def)
qed

lemma formatBalance_display:
  assumes "0 \<le> b" and "4 \<le> d"
  shows "formatBalance (Some b) d = display_4dp (nat b) d"
proof (cases "b = 0")
  case True
  have "fixed_width 4 0 = ''0000''"
    by (simp add: fixed_width_zero eval_nat_numeral)
  with True show ?thesis
    by (simp add: formatBalance_def display_4dp_def dec_of_nat_small digit_char_def)
next
  case False
  with assms have pos: "0 < b" "0 < d" by simp_all
  from assms(2) obtain j where j: "d = 4 + j" by (metis le_add_diff_inverse)
  have "take 4 (fixed_width d (nat b mod 10 ^ d)) = fixed_width 4 (nat b mod 10 ^ d div 10 ^ (d - 4))"
    unfolding j by (simp only: take_fixed_width add_diff_cancel_left')
  then show ?thesis
    by (simp only: formatBalance_pos [OF pos] display_4dp_def Let_def four_digit_split [OF assms(2), symmetric])
qed

lemma fraction_digits_display: "fraction_digits (dec_of_nat w @ ''.'' @ fs) = fs"
proof -
  have "dropWhile (\<lambda>c. c \<noteq> CHR ''.'') (dec_of_nat w @ ''.'' @ fs) = ''.'' @ fs"
    using dec_of_nat_no_point [of w] by (subst dropWhile_append2) auto
  then show ?thesis by (simp add: fraction_digits_def)
qed

text \<open>
  C9. For a non-negative balance and at least four decimals (every configured token has 6
  or 18), \<open>formatBalance\<close> prints the balance cut to four fractional digits: the integer part
  of \<open>b / 10^d\<close>, a point, and exactly four digits, left-padded with zeros; an undefined or
  zero balance prints as \<open>0.0000\<close>.
\<close>

theorem formatBalance_four_digits:
  assumes "0 \<le> b" and "4 \<le> d"
  shows "formatBalance (Some b) d = display_4dp (nat b) d
       \<and> length (fraction_digits (formatBalance (Some b) d)) = 4
       \<and> formatBalance None d = ''0.0000''"
proof -
  have eq: "formatBalance (Some b) d = display_4dp (nat b) d"
    by (rule formatBalance_display [OF assms])
  have "length (fraction_digits (display_4dp (nat b) d)) = 4"
    by (simp only: display_4dp_def Let_def fraction_digits_display length_fixed_width)
  moreover have "formatBalance None d = ''0.0000''"
    by (simp add: formatBalance_def)
  ultimately show ?thesis using eq by simp
qed

theorem formatBalance_four_digits_witness:
  "(0::int) \<le> 1234567890 \<and> (4::nat) \<le> 6
   \<and> formatBalance (Some 1234567890) 6 = ''1234.5678''
   \<and> length (fraction_digits (formatBalance (Some 1234567890) 6)) = 4"
proof -
  have "formatBalance (Some 1234567890) 6 = ''1234.5678''"
    by (simp add: formatBalance_def bigint_toString_def dec_of_nat.simps digit_char_def
        slice_0_neg_def slice_neg_def padStart_def)
  moreover have "length (fraction_digits (formatBalance (Some 1234567890) 6)) = 4"
    using formatBalance_four_digits [of 1234567890 6] by (elim meta_impE conjE) simp_all
  ultimately show ?thesis by simp
qed

text \<open>
  With fewer than four decimals the code prints fewer than four fractional digits:
  \<open>formatBalance(12345n, 2)\<close> is \<open>123.45\<close>. A negative balance, which an optimistic
  debit can produce, is padded across its sign: \<open>formatBalance(-60n, 6)\<close> is \<open>0.000-\<close>.
\<close>

theorem formatBalance_two_decimals:
  "formatBalance (Some 12345) 2 = ''123.45''
   \<and> length (fraction_digits (formatBalance (Some 12345) 2)) \<noteq> 4
   \<and> formatBalance (Some (- 60)) 6 = ''0.000-''"
proof -
  have pad: "replicate 3 (CHR ''0'') = ''000''" by (simp add: numeral_3_eq_3)
  show ?thesis
    by (simp add: formatBalance_def bigint_toString_def dec_of_nat.simps digit_char_def
        slice_0_neg_def slice_neg_def padStart_def fraction_digits_def pad)
qed

section \<open>getPrivateBalances\<close>

lemmas js_parse_eval = js_BigInt_def trim_def is_white_def number_in_def digit_value_def
  slice_0_neg_def

lemmas record_eval = data_field_def truthy_def REGISTRY_PROGRAM_ID_def no_data_def

lemma add_record_spent: "r_spent r \<Longrightarrow> add_record b r = Inr b"
  by (simp add: add_record_def Let_def split: option.splits)

lemma add_record_not_counted:
  assumes "\<not> counted r"
  shows "add_record b r = Inr b"
proof (cases "r_spent r")
  case True
  then show ?thesis by (rule add_record_spent)
next
  case False
  with assms have none: "record_token r = None" by (simp add: counted_def)
  then have not_credits: "\<not> (r_program_id r = ''credits.aleo'' \<and> truthy (data_field d_microcredits r))"
    by (auto simp: record_token_def)
  show ?thesis
  proof (cases "r_program_id r = REGISTRY_PROGRAM_ID")
    case True
    with none not_credits have "data_field d_amount r = None \<or> data_field d_token_id r = None"
      by (auto simp: record_token_def split: if_splits)
    with True not_credits show ?thesis
      by (auto simp: add_record_def split: option.splits)
  next
    case False
    with not_credits show ?thesis by (auto simp: add_record_def)
  qed
qed

lemma add_record_counted:
  assumes "counted r"
  shows "add_record b r =
     (case js_BigInt (record_amount_text r) of
        None \<Rightarrow> Inl SyntaxError
      | Some a \<Rightarrow> Inr (b(the (record_token r) \<mapsto> or_zero b (the (record_token r)) + a)))"
proof (cases "r_program_id r = ''credits.aleo'' \<and> truthy (data_field d_microcredits r)")
  case True
  with assms show ?thesis
    by (auto simp: add_record_def counted_def record_token_def record_amount_text_def or_zero_def
        Let_def split: option.splits)
next
  case False
  with assms obtain tokenId amountStr where
    reg: "r_program_id r = REGISTRY_PROGRAM_ID"
    and tok: "data_field d_token_id r = Some tokenId"
    and amt: "data_field d_amount r = Some amountStr"
    by (auto simp: counted_def record_token_def split: if_splits)
  from assms have unspent: "\<not> r_spent r" by (simp add: counted_def)
  show ?thesis
    using False reg tok amt unspent
    by (auto simp: add_record_def record_token_def record_amount_text_def or_zero_def
        Let_def split: option.splits)
qed

lemma add_records_filter_spent:
  "add_records b records = add_records b (filter (\<lambda>r. \<not> r_spent r) records)"
proof (induction records arbitrary: b)
  case Nil
  then show ?case by simp
next
  case (Cons r records)
  then show ?case
    by (cases "r_spent r") (simp_all add: add_record_spent split: sum.splits)
qed

lemma amounts_of_Cons:
  "amounts_of k (r # records) =
     (if counted r \<and> record_token r = Some k
      then the (js_BigInt (record_amount_text r)) # amounts_of k records
      else amounts_of k records)"
  by (simp add: amounts_of_def)

lemma add_records_sum:
  "add_records b records = Inr b' \<Longrightarrow>
   b' k = (if amounts_of k records = [] then b k
           else Some (or_zero b k + sum_list (amounts_of k records)))"
proof (induction records arbitrary: b)
  case Nil
  then show ?case by (simp add: amounts_of_def)
next
  case (Cons r records)
  show ?case
  proof (cases "counted r")
    case False
    with Cons.prems have "add_records b records = Inr b'"
      by (simp add: add_record_not_counted)
    from Cons.IH [OF this] False show ?thesis
      by (simp add: amounts_of_Cons)
  next
    case True
    then obtain t where t: "record_token r = Some t" by (auto simp: counted_def)
    from Cons.prems True obtain a where
      a: "js_BigInt (record_amount_text r) = Some a"
      and rest: "add_records (b(t \<mapsto> or_zero b t + a)) records = Inr b'"
      by (auto simp: add_record_counted t split: option.splits)
    from Cons.IH [OF rest] show ?thesis
      using True t a by (auto simp: amounts_of_Cons or_zero_def)
  qed
qed

lemma add_records_returns:
  "(\<exists>b'. add_records b records = Inr b') \<longleftrightarrow>
   (\<forall>r \<in> set records. counted r \<longrightarrow> js_BigInt (record_amount_text r) \<noteq> None)"
proof (induction records arbitrary: b)
  case Nil
  then show ?case by simp
next
  case (Cons r records)
  show ?case
  proof (cases "counted r")
    case False
    then show ?thesis using Cons.IH [of b] by (simp add: add_record_not_counted)
  next
    case True
    show ?thesis
    proof (cases "js_BigInt (record_amount_text r)")
      case None
      with True show ?thesis by (simp add: add_record_counted)
    next
      case (Some a)
      define b1 where "b1 = b(the (record_token r) \<mapsto> or_zero b (the (record_token r)) + a)"
      have "(\<exists>b'. add_records b (r # records) = Inr b') \<longleftrightarrow> (\<exists>b'. add_records b1 records = Inr b')"
        using True Some by (simp add: add_record_counted b1_def)
      also have "\<dots> \<longleftrightarrow> (\<forall>r \<in> set records. counted r \<longrightarrow> js_BigInt (record_amount_text r) \<noteq> None)"
        by (rule Cons.IH)
      finally show ?thesis using True Some by simp
    qed
  qed
qed

text \<open>
  C10. \<open>getPrivateBalances\<close> gives the same result with the spent records removed; it
  returns balances exactly when the amount of every unspent record it counts parses (a
  spent record is never parsed); and the balance it returns for a token is the sum of the
  parsed amounts of that token's unspent records, with no entry for a token without one.
\<close>

theorem getPrivateBalances_unspent_sum:
  "getPrivateBalances records = getPrivateBalances (filter (\<lambda>r. \<not> r_spent r) records)
   \<and> ((\<exists>b. getPrivateBalances records = Inr b) \<longleftrightarrow>
      (\<forall>r \<in> set records. counted r \<longrightarrow> js_BigInt (record_amount_text r) \<noteq> None))
   \<and> (\<forall>b k. getPrivateBalances records = Inr b \<longrightarrow> b k = token_sum k records)"
proof (intro conjI allI impI)
  show "getPrivateBalances records = getPrivateBalances (filter (\<lambda>r. \<not> r_spent r) records)"
    unfolding getPrivateBalances_def by (rule add_records_filter_spent)
  show "(\<exists>b. getPrivateBalances records = Inr b) \<longleftrightarrow>
      (\<forall>r \<in> set records. counted r \<longrightarrow> js_BigInt (record_amount_text r) \<noteq> None)"
    unfolding getPrivateBalances_def by (rule add_records_returns)
next
  fix b k
  assume "getPrivateBalances records = Inr b"
  then have "add_records Map.empty records = Inr b" by (simp add: getPrivateBalances_def)
  from add_records_sum [OF this, of k] show "b k = token_sum k records"
    by (simp add: token_sum_def or_zero_def)
qed

theorem getPrivateBalances_unspent_sum_witness:
  "\<exists>b. getPrivateBalances example_wallet = Inr b
       \<and> b ''ALEO'' = Some 1000 \<and> b ''123field'' = Some 520 \<and> b ''456field'' = None"
proof -
  note main = getPrivateBalances_unspent_sum [of example_wallet]
  have "\<forall>r \<in> set example_wallet. counted r \<longrightarrow> js_BigInt (record_amount_text r) \<noteq> None"
    by (simp add: example_wallet_def counted_def record_token_def record_amount_text_def
        record_eval js_parse_eval)
  with main obtain b where b: "getPrivateBalances example_wallet = Inr b" by blast
  with main have sums: "b k = token_sum k example_wallet" for k by blast
  have "token_sum ''ALEO'' example_wallet = Some 1000"
    by (simp add: example_wallet_def token_sum_def amounts_of_def counted_def record_token_def
        record_amount_text_def record_eval js_parse_eval)
  moreover have "token_sum ''123field'' example_wallet = Some 520"
    by (simp add: example_wallet_def token_sum_def amounts_of_def counted_def record_token_def
        record_amount_text_def record_eval js_parse_eval)
  moreover have "token_sum ''456field'' example_wallet = None"
    by (simp add: example_wallet_def token_sum_def amounts_of_def counted_def record_token_def
        record_amount_text_def record_eval js_parse_eval)
  ultimately show ?thesis using b sums by simp
qed

section \<open>The domain readers\<close>





















section \<open>The transaction builders\<close>











lemmas chain_eval = getBlockHeight_def js_Number_def trim_def is_white_def number_in_def
  digit_value_def getLendingTotals_def getLendingTotals_try_def read_total_def
  getProgramIdForToken_def vUSDG_def vUSDQ_def



section \<open>The polls for pending lends\<close>

lemma list_ex_lend_id: "list_ex (\<lambda>lend. lend_id lend = i) lends \<longleftrightarrow> i \<in> lend_id ` set lends"
  by (auto simp: list_ex_iff)

lemma find_lend_record_skip:
  "\<not> new_to lends r \<Longrightarrow>
   find_lend_record lends p (r # records) = find_lend_record lends p records"
  by (auto simp: new_to_def list_ex_lend_id)

lemma find_lend_record_new:
  "new_to lends r \<Longrightarrow>
   find_lend_record lends p (r # records) =
     (case record_amount r of
        Inl e \<Rightarrow> Inl e
      | Inr amount \<Rightarrow> if amount = pl_amount p then Inr (Some (new_lend_position r amount))
                       else find_lend_record lends p records)"
  by (auto simp: new_to_def list_ex_lend_id)

declare find_lend_record.simps(2) [simp del]

lemma reaches_Nil: "\<not> reaches lends p [] r"
  by (simp add: reaches_def)

lemma reaches_Cons:
  "reaches lends p (x # xs) r \<longleftrightarrow>
   (r = x \<or> ((new_to lends x \<longrightarrow> readable x \<and> \<not> matches_lend p x) \<and> reaches lends p xs r))"
proof
  assume "reaches lends p (x # xs) r"
  then obtain before after where
    split: "x # xs = before @ r # after"
    and clear: "\<forall>q \<in> set before. new_to lends q \<longrightarrow> readable q \<and> \<not> matches_lend p q"
    unfolding reaches_def by blast
  show "r = x \<or> ((new_to lends x \<longrightarrow> readable x \<and> \<not> matches_lend p x) \<and> reaches lends p xs r)"
  proof (cases before)
    case Nil
    with split show ?thesis by simp
  next
    case (Cons b bs)
    with split have "b = x" "xs = bs @ r # after" by simp_all
    moreover from Cons clear have "\<forall>q \<in> set bs. new_to lends q \<longrightarrow> readable q \<and> \<not> matches_lend p q"
      by simp
    moreover from Cons clear \<open>b = x\<close> have "new_to lends x \<longrightarrow> readable x \<and> \<not> matches_lend p x"
      by simp
    ultimately show ?thesis unfolding reaches_def by blast
  qed
next
  assume "r = x \<or> ((new_to lends x \<longrightarrow> readable x \<and> \<not> matches_lend p x) \<and> reaches lends p xs r)"
  then show "reaches lends p (x # xs) r"
  proof
    assume "r = x"
    then have "x # xs = [] @ r # xs" by simp
    then show ?thesis unfolding reaches_def by (metis empty_iff list.set(1))
  next
    assume a: "(new_to lends x \<longrightarrow> readable x \<and> \<not> matches_lend p x) \<and> reaches lends p xs r"
    then obtain before after where
      split: "xs = before @ r # after"
      and clear: "\<forall>q \<in> set before. new_to lends q \<longrightarrow> readable q \<and> \<not> matches_lend p q"
      unfolding reaches_def by blast
    have "x # xs = (x # before) @ r # after" using split by simp
    moreover have "\<forall>q \<in> set (x # before). new_to lends q \<longrightarrow> readable q \<and> \<not> matches_lend p q"
      using a clear by simp
    ultimately show ?thesis unfolding reaches_def by blast
  qed
qed

lemma ex_reaches_Cons:
  "(\<exists>r. reaches lends p (x # xs) r \<and> P r) \<longleftrightarrow>
   (P x \<or> ((new_to lends x \<longrightarrow> readable x \<and> \<not> matches_lend p x) \<and> (\<exists>r. reaches lends p xs r \<and> P r)))"
  unfolding reaches_Cons by auto

text \<open>The loop returns the first new record with the pending amount that it gets to.\<close>

lemma find_lend_record_Some:
  "find_lend_record lends p records = Inr (Some pos) \<longleftrightarrow>
   (\<exists>r. reaches lends p records r \<and> (new_to lends r \<and> matches_lend p r
        \<and> pos = new_lend_position r (pl_amount p)))"
proof (induction records)
  case Nil
  then show ?case by (simp add: reaches_Nil)
next
  case (Cons x xs)
  let ?P = "\<lambda>r. new_to lends r \<and> matches_lend p r \<and> pos = new_lend_position r (pl_amount p)"
  note split = ex_reaches_Cons [of lends p x xs ?P]
  show ?case
  proof (cases "new_to lends x")
    case False
    have "find_lend_record lends p (x # xs) = find_lend_record lends p xs"
      using False by (rule find_lend_record_skip)
    moreover have "(\<exists>r. reaches lends p (x # xs) r \<and> ?P r) \<longleftrightarrow> (\<exists>r. reaches lends p xs r \<and> ?P r)"
      using False unfolding split by simp
    ultimately show ?thesis using Cons.IH by simp
  next
    case True
    show ?thesis
    proof (cases "record_amount x")
      case (Inl e)
      then have "\<not> readable x" "\<not> matches_lend p x"
        by (simp_all add: readable_def matches_lend_def)
      then have "\<not> (\<exists>r. reaches lends p (x # xs) r \<and> ?P r)"
        using True unfolding split by simp
      moreover have "find_lend_record lends p (x # xs) = Inl e"
        using True Inl by (simp add: find_lend_record_new)
      ultimately show ?thesis by simp
    next
      case (Inr amount)
      then have rd: "readable x" by (simp add: readable_def)
      show ?thesis
      proof (cases "amount = pl_amount p")
        case same: True
        with Inr have m: "matches_lend p x" by (simp add: matches_lend_def)
        have "find_lend_record lends p (x # xs) = Inr (Some (new_lend_position x (pl_amount p)))"
          using True Inr same by (simp add: find_lend_record_new)
        moreover have "(\<exists>r. reaches lends p (x # xs) r \<and> ?P r) \<longleftrightarrow> pos = new_lend_position x (pl_amount p)"
          using True m unfolding split by simp
        ultimately show ?thesis by auto
      next
        case differ: False
        with Inr have m: "\<not> matches_lend p x" by (simp add: matches_lend_def)
        have "find_lend_record lends p (x # xs) = find_lend_record lends p xs"
          using True Inr differ by (simp add: find_lend_record_new)
        moreover have "(\<exists>r. reaches lends p (x # xs) r \<and> ?P r) \<longleftrightarrow> (\<exists>r. reaches lends p xs r \<and> ?P r)"
          using True m rd unfolding split by simp
        ultimately show ?thesis using Cons.IH by simp
      qed
    qed
  qed
qed








lemmas poll_eval = poll_lend_def lending_records_def wallet_with_def receipt_def is_receipt_def
  find_lend_record.simps record_amount_def new_lend_position_def bigint_of_def parseInt_def
  js_Number_def record_eval js_parse_eval is_digit_def LENDING_PROGRAM_ID_def
  LENDING_PROGRAM_ID_USDQ_def pending1_def pending2_def position_r1_def

lemma poll_pending1:
  "poll_lend (wallet_with [receipt ''r1'' ''500000u128.private'']) [] pending1 True 0 5000 = Confirmed position_r1"
  by (simp add: poll_eval Let_def)

lemma poll_pending2:
  "poll_lend (wallet_with [receipt ''r1'' ''500000u128.private'']) [] pending2 True 0 5000 = Confirmed position_r1"
  by (simp add: poll_eval Let_def)



section \<open>Two pending lends of one amount\<close>

text \<open>
  Within one poll the guard works: the record a poll matches is not among the lends the
  poll captured, and a poll matches one record at most, since it returns at the first.
\<close>

lemma find_lend_record_not_captured:
  assumes "find_lend_record lends p records = Inr (Some pos)"
  shows "lend_id pos \<notin> lend_id ` set lends"
proof -
  from assms obtain r where "new_to lends r" and "pos = new_lend_position r (pl_amount p)"
    unfolding find_lend_record_Some by blast
  then show ?thesis by (simp add: new_to_def new_lend_position_def Let_def)
qed

text \<open>
  C2. Two lends of 500000 are pending and the wallet shows one receipt of 500000. The
  effect starts a poll for each with the same captured \<open>lends\<close>; both match the receipt
  \<open>r1\<close>: the active lends hold it twice, and the second \<open>setPendingLends\<close>, computed from the
  captured list, puts the first pending lend back.
\<close>

theorem one_receipt_matched_twice:
  "run_lend_polls (wallet_with [receipt ''r1'' ''500000u128.private'']) [] [pending1, pending2]
      0 5000 [pending1, pending2] (empty_dashboard\<lparr>cur_pendingLends := [pending1, pending2]\<rparr>)
   = empty_dashboard\<lparr>cur_lends := [position_r1, position_r1], cur_pendingLends := [pending1]\<rparr>"
proof -
  have ne: "pending1 \<noteq> pending2" "pending2 \<noteq> pending1"
    by (simp_all add: pending1_def pending2_def)
  have sort: "sort_latest_first lend_timestamp [position_r1, position_r1] = [position_r1, position_r1]"
    "sort_latest_first lend_timestamp [position_r1] = [position_r1]"
    by (simp_all add: sort_latest_first_def later_def position_r1_def)
  show ?thesis
    by (simp add: poll_pending1 poll_pending2 apply_lend_outcome_def ne sort empty_dashboard_def)
qed

section \<open>Timeouts\<close>

lemma poll_lend_timeout:
  "now - startTime > 180000 \<Longrightarrow> poll_lend requestRecords lends p True startTime now = TimedOut"
  by (simp add: poll_lend_def)

lemma poll_borrow_timeout:
  "now - startTime > 180000 \<Longrightarrow>
   poll_borrow env requestRecords activeBorrows p True startTime now = BorrowTimedOut"
  by (simp add: poll_borrow_def)

lemma pollTokenBalance_timeout:
  "now - startTime > 180000 \<Longrightarrow>
   pollTokenBalance env requestRecords publicKey publicBalances privateBalances tokenId startTime attempt now st
     = (st, Finished)"
  by (simp add: pollTokenBalance_def)

text \<open>
  C1. When a poll runs more than 180 s after its start, a pending lend or borrow is taken
  off the pending list (which becomes the captured list without it), and nothing else
  changes: the balance ledgers and the positions stay as they were, and no read is
  made. The balance poll stops without touching the state.
\<close>

theorem timeout_removes_entry_only:
  assumes "now - startTime > 180000"
  shows "poll_lend requestRecords lends pendingLend True startTime now = TimedOut
       \<and> apply_lend_outcome pendingLends pendingLend TimedOut st
           = st\<lparr>cur_pendingLends := filter (\<lambda>lend. lend \<noteq> pendingLend) pendingLends\<rparr>
       \<and> pendingLend \<notin> set (cur_pendingLends (apply_lend_outcome pendingLends pendingLend TimedOut st))
       \<and> cur_privateBalances (apply_lend_outcome pendingLends pendingLend TimedOut st) = cur_privateBalances st
       \<and> cur_publicBalances (apply_lend_outcome pendingLends pendingLend TimedOut st) = cur_publicBalances st
       \<and> poll_borrow env requestRecords activeBorrows pendingBorrow True startTime now = BorrowTimedOut
       \<and> apply_borrow_outcome pendingBorrows pendingBorrow BorrowTimedOut st
           = st\<lparr>cur_pendingBorrows := filter (\<lambda>borrow. borrow \<noteq> pendingBorrow) pendingBorrows\<rparr>
       \<and> pendingBorrow \<notin> set (cur_pendingBorrows (apply_borrow_outcome pendingBorrows pendingBorrow BorrowTimedOut st))
       \<and> cur_privateBalances (apply_borrow_outcome pendingBorrows pendingBorrow BorrowTimedOut st) = cur_privateBalances st
       \<and> pollTokenBalance env wallet publicKey publicBalances privateBalances tokenId startTime attempt now st
           = (st, Finished)"
  using poll_lend_timeout [OF assms] poll_borrow_timeout [OF assms] pollTokenBalance_timeout [OF assms]
  by (simp add: apply_lend_outcome_def apply_borrow_outcome_def)

section \<open>Retry intervals\<close>






lemma lent_dashboard_eq:
  "lent_dashboard = empty_dashboard\<lparr>cur_pendingLends := [pending1], cur_privateBalances := [vUSDG \<mapsto> 500000]\<rparr>"
  by (simp add: lent_dashboard_def handleLendSuccess_def dashboard_with_def empty_dashboard_def
      debit_def or_zero_def pending1_def)

theorem timeout_removes_entry_only_witness:
  "(180001::int) - 0 > 180000
   \<and> poll_lend (token_wallet ''1000000u128.private'') [] pending1 True 0 180001 = TimedOut
   \<and> cur_pendingLends (apply_lend_outcome [pending1] pending1 TimedOut lent_dashboard) = []
   \<and> cur_privateBalances (apply_lend_outcome [pending1] pending1 TimedOut lent_dashboard) vUSDG = Some 500000"
proof -
  have time: "(180001::int) - 0 > 180000" by simp
  note main = timeout_removes_entry_only [OF time, of "token_wallet ''1000000u128.private''" "[]"
      pending1 "[pending1]" lent_dashboard]
  from main have "poll_lend (token_wallet ''1000000u128.private'') [] pending1 True 0 180001 = TimedOut"
    and "apply_lend_outcome [pending1] pending1 TimedOut lent_dashboard
           = lent_dashboard\<lparr>cur_pendingLends := filter (\<lambda>lend. lend \<noteq> pending1) [pending1]\<rparr>"
    by blast+
  then show ?thesis by (simp add: lent_dashboard_eq)
qed

lemma split_first_vUSDG: "split_first ''.'' (vUSDG @ ''.private'') = vUSDG"
  by (simp add: vUSDG_def)

text \<open>
  A lend of 500000 out of 1000000 that is never mined: the wallet keeps showing the
  unspent record of 1000000. An attempt of the balance poll reads 1000000, which is the
  balance its closure captured before the lend, sees no change and leaves the 500000 on
  display. After the timeout the pending list is empty, the balance poll has stopped, and
  the dashboard still shows 500000, while a fresh read gives 1000000.
\<close>

theorem timeout_keeps_optimistic_balance:
  "cur_privateBalances lent_dashboard vUSDG = Some 500000
   \<and> pollTokenBalance rpc_down (Some (token_wallet ''1000000u128.private'')) ''aleo1'' Map.empty
        [vUSDG \<mapsto> 1000000] vUSDG 1000 1 2000 lent_dashboard
       = (lent_dashboard, Again 2000 2)
   \<and> cur_pendingLends (apply_lend_outcome [pending1] pending1
        (poll_lend (token_wallet ''1000000u128.private'') [] pending1 True 0 180001) lent_dashboard) = []
   \<and> cur_privateBalances (apply_lend_outcome [pending1] pending1
        (poll_lend (token_wallet ''1000000u128.private'') [] pending1 True 0 180001) lent_dashboard) vUSDG
       = Some 500000
   \<and> pollTokenBalance rpc_down (Some (token_wallet ''1000000u128.private'')) ''aleo1'' Map.empty
        [vUSDG \<mapsto> 1000000] vUSDG 1000 40 181001
        (apply_lend_outcome [pending1] pending1 TimedOut lent_dashboard)
       = (apply_lend_outcome [pending1] pending1 TimedOut lent_dashboard, Finished)
   \<and> (\<exists>fresh. getPrivateBalances (projr (token_wallet ''1000000u128.private'' ''token_registry.aleo'')) = Inr fresh
        \<and> fresh vUSDG = Some 1000000)"
proof -
  have not_aleo: "vUSDG \<noteq> ''ALEO''" by (simp add: vUSDG_def)
  have fresh: "getPrivateBalances (projr (token_wallet ''1000000u128.private'' ''token_registry.aleo''))
        = Inr [vUSDG \<mapsto> 1000000]"
    by (simp add: getPrivateBalances_def add_record_def token_wallet_def record_eval js_parse_eval
        split_first_vUSDG Let_def)
  have relevant: "filter (relevant_to vUSDG) (projr (token_wallet ''1000000u128.private'' ''token_registry.aleo''))
        = projr (token_wallet ''1000000u128.private'' ''token_registry.aleo'')"
    by (simp add: relevant_to_def token_wallet_def record_eval split_first_vUSDG)
  have attempt: "pollTokenBalance rpc_down (Some (token_wallet ''1000000u128.private'')) ''aleo1'' Map.empty
        [vUSDG \<mapsto> 1000000] vUSDG 1000 1 2000 lent_dashboard = (lent_dashboard, Again 2000 2)"
  proof -
    have w: "token_wallet ''1000000u128.private'' ''token_registry.aleo''
          = Inr (projr (token_wallet ''1000000u128.private'' ''token_registry.aleo''))"
      by (simp add: token_wallet_def)
    show ?thesis
      using not_aleo
      by (simp add: pollTokenBalance_def pollTokenBalance_try_def poll_public_def poll_private_def)
         (subst w, simp add: relevant fresh or_zero_def)
  qed
  from fresh attempt show ?thesis
    by (simp add: poll_lend_def apply_lend_outcome_def pollTokenBalance_def lent_dashboard_eq)
qed

section \<open>Polling intervals\<close>




section \<open>The optimistic borrowed total\<close>

lemma getLendingTotals_before:
  "getLendingTotals (totals_chain 10000000 5000000) LENDING_PROGRAM_ID
     = Inr \<lparr>supplied = 10000000, borrowed = 5000000\<rparr>"
  by (simp add: chain_eval totals_chain_def bigint_toString_def dec_of_nat.simps digit_char_def
      match_digits.simps digits_at_def is_digit_def bigint_of_def js_BigInt_def)

text \<open>
  The poll of \<open>handleBorrowSuccess\<close> clears the optimistic state exactly when the read
  reaches the captured borrowed total plus the amount.
\<close>

lemma panel_poll_confirms:
  assumes "now - startTime \<le> 180000" and "getLendingTotals env LENDING_PROGRAM_ID = Inr totals"
  shows "panel_poll env lendingTotals amount startTime now st =
     (if borrowed totals \<ge> borrowed lendingTotals + amount
      then (st\<lparr>cur_lendingTotals := totals, optimisticAvailableRef := None,
               lastBorrowAmountRef := None, updateTrigger := updateTrigger st + 1\<rparr>, None)
      else (st, Some 5000))"
  using assms by (simp add: panel_poll_def Let_def)

text \<open>
  C4. 5000000 are borrowed when a borrow of 1000000 is submitted: the borrowed total shown
  becomes 6000000 and the available amount 4000000. The next periodic
  \<open>loadLendingTotals\<close> reads 5000000, the borrow not being mined yet, compares it with
  \<open>0 + 1000000\<close>, since its closure holds the initial totals, and clears the optimistic
  state although 5000000 is less than 5000000 + 1000000.
\<close>

theorem optimistic_state_cleared_early:
  "panel_handleBorrowSuccess (cur_lendingTotals panel_before) 1000000 panel_before
     = \<lparr>cur_lendingTotals = \<lparr>supplied = 10000000, borrowed = 6000000\<rparr>,
        optimisticAvailableRef = Some 4000000, lastBorrowAmountRef = Some 1000000, updateTrigger = 1\<rparr>
   \<and> getLendingTotals (totals_chain 10000000 5000000) LENDING_PROGRAM_ID
     = Inr \<lparr>supplied = 10000000, borrowed = 5000000\<rparr>
   \<and> (5000000::int) < borrowed (cur_lendingTotals panel_before) + 1000000
   \<and> loadLendingTotals (totals_chain 10000000 5000000)
       (panel_handleBorrowSuccess (cur_lendingTotals panel_before) 1000000 panel_before)
     = \<lparr>cur_lendingTotals = \<lparr>supplied = 10000000, borrowed = 5000000\<rparr>,
        optimisticAvailableRef = None, lastBorrowAmountRef = None, updateTrigger = 2\<rparr>
   \<and> panel_poll (totals_chain 10000000 5000000) (cur_lendingTotals panel_before) 1000000 0 5000
       (panel_handleBorrowSuccess (cur_lendingTotals panel_before) 1000000 panel_before)
     = (panel_handleBorrowSuccess (cur_lendingTotals panel_before) 1000000 panel_before, Some 5000)"
proof -
  have after: "panel_handleBorrowSuccess (cur_lendingTotals panel_before) 1000000 panel_before
     = \<lparr>cur_lendingTotals = \<lparr>supplied = 10000000, borrowed = 6000000\<rparr>,
        optimisticAvailableRef = Some 4000000, lastBorrowAmountRef = Some 1000000, updateTrigger = 1\<rparr>"
    by (simp add: panel_handleBorrowSuccess_def panel_before_def initial_panel_def
        initial_lendingTotals_def Let_def)
  have before: "cur_lendingTotals panel_before = \<lparr>supplied = 10000000, borrowed = 5000000\<rparr>"
    by (simp add: panel_before_def)
  show ?thesis
    unfolding after
    by (simp add: before loadLendingTotals_def loadLendingTotals_with_def getLendingTotals_before
        initial_lendingTotals_def panel_poll_def Let_def)
qed

section \<open>A debit below zero\<close>

lemma replace_first_vUSDG: "replace_first ''.private'' (vUSDG @ ''.private'') = vUSDG"
  by (simp add: vUSDG_def)

text \<open>
  C5. The ledger shows 100 vUSDG and a lend of 60 is submitted: it shows 40. Until the
  lend is mined the wallet still lists the unspent record of 100, so a repayment of a
  loan of 100 finds its record and is submitted; \<open>handleRepaySuccess\<close> then debits the
  ledger to \<open>-60\<close>.
\<close>

theorem repay_debit_below_zero:
  "cur_privateBalances (handleLendSuccess 1 vUSDG 60 100 ''tx1'' (dashboard_with 100)) vUSDG = Some 40
   \<and> (\<exists>r. find_repayment_record 100 (projr (token_wallet ''100u128.private'' ''token_registry.aleo''))
            = Inr (Some r))
   \<and> cur_privateBalances
        (handleRepaySuccess vUSDG 100 WALEO_TOKEN_id 50
           (handleLendSuccess 1 vUSDG 60 100 ''tx1'' (dashboard_with 100))) vUSDG = Some (- 60)"
proof -
  have keys: "WALEO_TOKEN_id \<noteq> vUSDG"
    by (simp add: WALEO_TOKEN_id_def vUSDG_def)
  have "\<exists>r. find_repayment_record 100 (projr (token_wallet ''100u128.private'' ''token_registry.aleo''))
            = Inr (Some r)"
    by (simp add: token_wallet_def record_eval replace_first_vUSDG bigint_of_def js_parse_eval Let_def)
  then show ?thesis
    using keys
    by (simp add: handleRepaySuccess_def handleLendSuccess_def dashboard_with_def empty_dashboard_def
        credit_def debit_def or_zero_def)
qed


end
